theory Spec2Isabelle
  imports Main
begin

section \<open>The NOIR consensus state machine and state store\<close>

text \<open>
  A shallow embedding of \<^verbatim>\<open>src/noir/consensus/consensus_state.cpp\<close> (the round state
  machine of \<^verbatim>\<open>consensus_state\<close>) and of the \<^verbatim>\<open>db_store\<close> class of the state store.

  Conventions.
  \<^item> A member function that mutates \<^verbatim>\<open>consensus_state\<close> takes the object as a record and
    returns the updated record.
  \<^item> A \<^verbatim>\<open>throw std::runtime_error\<close> is the value \<open>Inl (RuntimeError msg)\<close>, where \<open>msg\<close> is
    the format string of the source. Nothing in the file catches an exception, so no state is
    kept after a throw.
  \<^item> \<^verbatim>\<open>std::optional\<close> members are \<open>option\<close> values. Reading through an empty optional
    (\<^verbatim>\<open>opt->f()\<close>) is undefined behaviour in C++; the embedding makes it the explicit
    result \<open>Inl EmptyOptionalAccess\<close>. The same holds for a null \<^verbatim>\<open>shared_ptr\<close>
    (\<open>Inl NullPointerAccess\<close>).
  \<^item> \<^verbatim>\<open>make_scoped_exit\<close> runs its action when the enclosing function returns; the embedding
    applies it to the state the body returns.
  \<^item> Rounds are \<^verbatim>\<open>int32_t\<close>: the sums and the difference the code forms from rounds
    (\<^verbatim>\<open>ti->round + 1\<close>, \<^verbatim>\<open>round + 1\<close>, \<^verbatim>\<open>round - rs.round\<close>) are unchecked in the source
    and wrap around to 32 bits (\<open>to_int32\<close>), as does \<^verbatim>\<open>static_cast<int32_t>\<close>. Heights and
    times are 64-bit and are kept as mathematical integers.
  \<^item> Classes declared in headers that are not part of the sources (vote sets, validator sets,
    part sets, blocks) are records of what the code reads from them; the operations that
    change them are the fields of the record \<open>env\<close>, a parameter of every function that uses one.
\<close>

subsection \<open>Data\<close>

type_synonym bytes = string

datatype error = RuntimeError string | EmptyOptionalAccess | NullPointerAccess

text \<open>
  Modelled from the spec: the enumerators of \<^verbatim>\<open>round_step_type\<close>, in the order the
  specification lists them; the declaration is in a header outside the sources. The sources
  compare steps with \<^verbatim>\<open><\<close> and with the literal \<^verbatim>\<open>0\<close>, so a step is its integer value. The
  enumerators are numbered from 1, so that the value-initialised \<^verbatim>\<open>timeout_info{}\<close> of the
  constructor (step 0) is below every enumerator, which is what the test
  \<^verbatim>\<open>old_ti->step > 0\<close> of \<^verbatim>\<open>tick\<close> relies on.
\<close>

type_synonym round_step_type = int

definition NewHeight :: round_step_type where "NewHeight = 1"
definition NewRound :: round_step_type where "NewRound = 2"
definition Propose :: round_step_type where "Propose = 3"
definition Prevote :: round_step_type where "Prevote = 4"
definition PrevoteWait :: round_step_type where "PrevoteWait = 5"
definition Precommit :: round_step_type where "Precommit = 6"
definition PrecommitWait :: round_step_type where "PrecommitWait = 7"
definition Commit :: round_step_type where "Commit = 8"

definition valid_step :: "round_step_type \<Rightarrow> bool" where
  "valid_step s = (NewHeight \<le> s \<and> s \<le> Commit)"

datatype signed_msg_type = p2p_Unknown | p2p_Prevote | p2p_Precommit | p2p_Proposal

record part_set_header =
  psh_total :: nat
  psh_hash :: bytes

record block_id =
  hash :: bytes
  parts :: part_set_header

record timeout_info =
  ti_duration :: int
  ti_height :: int
  ti_round :: int
  ti_step :: round_step_type

record proposal_message =
  pm_type :: signed_msg_type
  pm_height :: int
  pm_round :: int
  pol_round :: int
  pm_block_id :: block_id
  pm_timestamp :: int

record vote =
  vote_type :: signed_msg_type
  vote_height :: int
  vote_round :: int
  vote_block_id :: block_id
  vote_timestamp :: int
  validator_address :: bytes
  validator_index :: int

record block_header =
  bh_height :: int
  bh_time :: int

record block =
  header :: block_header
  block_hash :: bytes

record part_set =
  ps_total :: nat
  ps_hash :: bytes
  ps_parts :: "bytes option list"

record validator =
  address :: bytes
  voting_power :: int
  proposer_priority :: int

text \<open>
  A validator set, as far as the consensus code reads it: the validators in order and the
  validator \<^verbatim>\<open>get_proposer()\<close> returns.
\<close>

record validator_set =
  vset_validators :: "validator list"
  proposer :: "validator option"

text \<open>
  A vote set, as far as the consensus code reads it: the results of
  \<^verbatim>\<open>two_thirds_majority()\<close>, \<^verbatim>\<open>has_two_thirds_any()\<close> and \<^verbatim>\<open>has_all()\<close>.
\<close>

record vote_set =
  two_thirds_majority :: "block_id option"
  has_two_thirds_any :: bool
  has_all :: bool

text \<open>
  A height vote set, as far as the consensus code reads it: the vote sets
  \<^verbatim>\<open>prevotes(r)\<close> and \<^verbatim>\<open>precommits(r)\<close> of every round, the result of
  \<^verbatim>\<open>pol_info()\<close>, and the round last given to \<^verbatim>\<open>set_round\<close>.
\<close>

record height_vote_set =
  hvs_round :: int
  prevotes :: "int \<Rightarrow> vote_set"
  precommits :: "int \<Rightarrow> vote_set"
  pol_info :: int

record state =
  chain_id :: string
  initial_height :: int
  last_block_height :: int
  st_validators :: validator_set
  st_last_validators :: validator_set

record priv_validator =
  pv_pub_key :: bytes

datatype priv_validator_type = MockSignerClient | FileSignerClient | RetrySignerClient

record consensus_config =
  timeout_propose :: int
  timeout_propose_delta :: int
  timeout_prevote :: int
  timeout_prevote_delta :: int
  timeout_precommit :: int
  timeout_precommit_delta :: int
  timeout_commit :: int
  skip_timeout_commit :: bool

record round_state =
  height :: int
  round :: int
  step :: round_step_type
  start_time :: int
  commit_time :: int
  validators :: "validator_set option"
  proposal :: "proposal_message option"
  proposal_block :: "block option"
  proposal_block_parts :: "part_set option"
  locked_round :: int
  locked_block :: "block option"
  locked_block_parts :: "part_set option"
  valid_round :: int
  valid_block :: "block option"
  valid_block_parts :: "part_set option"
  votes :: "height_vote_set option"
  commit_round :: int
  last_commit :: "vote_set option"
  last_validators :: "validator_set option"
  triggered_timeout_precommit :: bool

datatype message = ProposalMsg proposal_message | VoteMsg vote

text \<open>
  The operations \<^verbatim>\<open>tick\<close> performs on the \<^verbatim>\<open>steady_timer\<close>, in order. \<open>AsyncWait ti\<close> is
  the armed wait whose handler calls \<^verbatim>\<open>tock(ti)\<close>.
\<close>

datatype timer_op = Cancel | ExpiresFromNow int | AsyncWait timeout_info

text \<open>
  The \<^verbatim>\<open>consensus_state\<close> object. \<open>internal_mq\<close> is what has been published on the internal
  message queue channel, \<open>timeout_ticker_timer\<close> the operations performed on the timer, and
  \<open>clock\<close> the value \<^verbatim>\<open>get_time()\<close> returns.
\<close>

record consensus_state =
  cs_config :: consensus_config
  rs :: round_state
  local_state :: state
  local_priv_validator :: "priv_validator option"
  local_priv_validator_type :: priv_validator_type
  local_priv_validator_pub_key :: bytes
  old_ti :: timeout_info
  timeout_ticker_timer :: "timer_op list"
  internal_mq :: "message list"
  n_steps :: nat
  clock :: int

text \<open>
  The operations of the classes declared outside the sources that change an object or whose
  result the code only passes on: adding a vote to a (height) vote set, rotating the proposer
  priorities, creating the vote set of a new height, the address of a public key, and
  \<^verbatim>\<open>state::is_empty\<close>.
\<close>

record env =
  hvs_add_vote :: "height_vote_set \<Rightarrow> vote \<Rightarrow> string \<Rightarrow> bool \<times> height_vote_set"
  vs_add_vote :: "vote_set \<Rightarrow> vote \<Rightarrow> bool \<times> vote_set"
  increment_proposer_priority :: "int \<Rightarrow> validator_set \<Rightarrow> validator_set"
  new_height_vote_set :: "string \<Rightarrow> int \<Rightarrow> validator_set \<Rightarrow> height_vote_set"
  address_of :: "bytes \<Rightarrow> bytes"
  is_empty :: "state \<Rightarrow> bool"

subsection \<open>Helpers of the classes declared outside the sources\<close>

text \<open>
  A value as a 32-bit signed integer: the value modulo \<open>2^32\<close>, read as signed. It is the
  result of \<^verbatim>\<open>static_cast<int32_t>\<close>, and of an addition or subtraction of two \<^verbatim>\<open>int32_t\<close>
  rounds as the compiled code performs it.
\<close>

definition to_int32 :: "int \<Rightarrow> int" where
  "to_int32 x = (x + 2 ^ 31) mod 2 ^ 32 - 2 ^ 31"

definition bind :: "error + 'a \<Rightarrow> ('a \<Rightarrow> error + 'b) \<Rightarrow> error + 'b" where
  "bind m f = (case m of Inl e \<Rightarrow> Inl e | Inr x \<Rightarrow> f x)"

definition deref :: "'a option \<Rightarrow> error + 'a" where
  "deref x = (case x of None \<Rightarrow> Inl EmptyOptionalAccess | Some v \<Rightarrow> Inr v)"

definition deref_ptr :: "'a option \<Rightarrow> error + 'a" where
  "deref_ptr x = (case x of None \<Rightarrow> Inl NullPointerAccess | Some v \<Rightarrow> Inr v)"

text \<open>
  Modelled from the spec: \<^verbatim>\<open>vote_set::has_two_thirds_majority\<close>, which holds when
  \<^verbatim>\<open>two_thirds_majority()\<close> returns a block id.
\<close>

definition has_two_thirds_majority :: "vote_set \<Rightarrow> bool" where
  "has_two_thirds_majority vs = (two_thirds_majority vs \<noteq> None)"

text \<open>
  Modelled from the spec: \<^verbatim>\<open>height_vote_set::set_round\<close>, which allocates the vote sets of
  the rounds up to \<open>r\<close>; a vote set that was not allocated reads as an empty one, so only the
  round is recorded.
\<close>

definition set_round :: "height_vote_set \<Rightarrow> int \<Rightarrow> height_vote_set" where
  "set_round hvs r = hvs\<lparr>hvs_round := r\<rparr>"

text \<open>
  Modelled from the spec: \<^verbatim>\<open>block::get_hash\<close> and \<^verbatim>\<open>block::hashes_to\<close>: a block hashes to
  \<open>h\<close> when its hash is \<open>h\<close>.
\<close>

definition get_hash :: "block \<Rightarrow> bytes" where
  "get_hash b = block_hash b"

definition hashes_to :: "block \<Rightarrow> bytes \<Rightarrow> bool" where
  "hashes_to b h = (get_hash b = h)"

text \<open>
  Modelled from the spec: the part set class: its header \<open>(total, hash)\<close>,
  \<^verbatim>\<open>has_header\<close>, and \<^verbatim>\<open>new_part_set_from_header\<close>, which creates an empty set awaiting
  \<open>total\<close> parts.
\<close>

definition ps_header :: "part_set \<Rightarrow> part_set_header" where
  "ps_header ps = \<lparr>psh_total = ps_total ps, psh_hash = ps_hash ps\<rparr>"

definition has_header :: "part_set \<Rightarrow> part_set_header \<Rightarrow> bool" where
  "has_header ps h = (ps_header ps = h)"

definition new_part_set_from_header :: "part_set_header \<Rightarrow> part_set" where
  "new_part_set_from_header h =
     \<lparr>ps_total = psh_total h, ps_hash = psh_hash h, ps_parts = replicate (psh_total h) None\<rparr>"

text \<open>
  Modelled from the spec: a validator set is an ordered sequence of validators;
  \<^verbatim>\<open>has_address\<close> and \<^verbatim>\<open>get_index_by_address\<close> search it (index \<open>-1\<close> when absent).
\<close>

definition has_address :: "validator_set \<Rightarrow> bytes \<Rightarrow> bool" where
  "has_address vs a = (a \<in> set (map address (vset_validators vs)))"

fun index_of :: "validator list \<Rightarrow> bytes \<Rightarrow> int \<Rightarrow> int" where
  "index_of [] a i = -1"
| "index_of (v # vs) a i = (if address v = a then i else index_of vs a (i + 1))"

definition get_index_by_address :: "validator_set \<Rightarrow> bytes \<Rightarrow> int" where
  "get_index_by_address vs a = index_of (vset_validators vs) a 0"

text \<open>
  Modelled from the spec: the timeouts of the configuration grow by their delta with every
  round (\<^verbatim>\<open>consensus_config::propose\<close>, \<^verbatim>\<open>prevote\<close>, \<^verbatim>\<open>precommit\<close>).
\<close>

definition propose :: "consensus_config \<Rightarrow> int \<Rightarrow> int" where
  "propose c r = timeout_propose c + timeout_propose_delta c * r"

definition prevote :: "consensus_config \<Rightarrow> int \<Rightarrow> int" where
  "prevote c r = timeout_prevote c + timeout_prevote_delta c * r"

definition precommit :: "consensus_config \<Rightarrow> int \<Rightarrow> int" where
  "precommit c r = timeout_precommit c + timeout_precommit_delta c * r"

text \<open>
  Modelled from the spec: \<^verbatim>\<open>proposal::new_proposal\<close> builds the proposal message of the
  given height, round, POL round and block id, stamped with the current time.
\<close>

definition new_proposal :: "int \<Rightarrow> int \<Rightarrow> int \<Rightarrow> block_id \<Rightarrow> int \<Rightarrow> proposal_message" where
  "new_proposal h r pol bid now =
     \<lparr>pm_type = p2p_Proposal, pm_height = h, pm_round = r, pol_round = pol, pm_block_id = bid,
      pm_timestamp = now\<rparr>"

definition nil_hash :: bytes where
  "nil_hash = []"

definition nil_part_set_header :: part_set_header where
  "nil_part_set_header = \<lparr>psh_total = 0, psh_hash = []\<rparr>"

subsection \<open>The timeout ticker\<close>

definition update_height :: "consensus_state \<Rightarrow> int \<Rightarrow> consensus_state" where
  "update_height cs h = cs\<lparr>rs := (rs cs)\<lparr>height := h\<rparr>\<rparr>"

definition update_round_step :: "consensus_state \<Rightarrow> int \<Rightarrow> round_step_type \<Rightarrow> consensus_state" where
  "update_round_step cs r s = cs\<lparr>rs := (rs cs)\<lparr>round := r, step := s\<rparr>\<rparr>"

definition new_step :: "consensus_state \<Rightarrow> consensus_state" where
  "new_step cs = cs\<lparr>n_steps := n_steps cs + 1\<rparr>"

text \<open>The test of \<^verbatim>\<open>tick\<close> that ignores a ticker for an old height, round or step.\<close>

definition tick_ignored :: "timeout_info \<Rightarrow> timeout_info \<Rightarrow> bool" where
  "tick_ignored old ti =
     (if ti_height ti < ti_height old then True
      else if ti_height ti = ti_height old then
        (if ti_round ti < ti_round old then True
         else if ti_round ti = ti_round old then (ti_step old > 0 \<and> ti_step ti \<le> ti_step old)
         else False)
      else False)"

definition tick :: "consensus_state \<Rightarrow> timeout_info \<Rightarrow> consensus_state" where
  "tick cs ti =
     (if tick_ignored (old_ti cs) ti then cs
      else cs\<lparr>old_ti := ti,
              timeout_ticker_timer :=
                timeout_ticker_timer cs @ [Cancel, ExpiresFromNow (ti_duration ti), AsyncWait ti]\<rparr>)"

definition schedule_timeout ::
  "consensus_state \<Rightarrow> int \<Rightarrow> int \<Rightarrow> int \<Rightarrow> round_step_type \<Rightarrow> consensus_state" where
  "schedule_timeout cs d h r s =
     tick cs \<lparr>ti_duration = d, ti_height = h, ti_round = r, ti_step = s\<rparr>"

text \<open>The order of timeout infos by height, then round, then step.\<close>

definition ti_less :: "timeout_info \<Rightarrow> timeout_info \<Rightarrow> bool" where
  "ti_less a b =
     (ti_height a < ti_height b \<or>
      (ti_height a = ti_height b \<and>
       (ti_round a < ti_round b \<or> (ti_round a = ti_round b \<and> ti_step a < ti_step b))))"

subsection \<open>Signing and publishing votes\<close>

definition vote_time :: "consensus_state \<Rightarrow> int" where
  "vote_time cs =
     (let now = clock cs;
          min_vote_time =
            (case locked_block (rs cs) of
               Some b \<Rightarrow> bh_time (header b) + 1
             | None \<Rightarrow>
                 (case proposal_block (rs cs) of
                    Some b \<Rightarrow> bh_time (header b) + 1
                  | None \<Rightarrow> now))
      in if now > min_vote_time then now else min_vote_time)"

text \<open>
  \<^verbatim>\<open>sign_vote\<close>: the signer itself is not called by the sources (its call is commented out),
  so the vote is returned unsigned; the timeout the function computes from the vote type is
  not used.
\<close>

definition sign_vote ::
  "env \<Rightarrow> consensus_state \<Rightarrow> signed_msg_type \<Rightarrow> bytes \<Rightarrow> part_set_header \<Rightarrow> error + vote option" where
  "sign_vote E cs msg_type h hdr =
     (if local_priv_validator_pub_key cs = [] then Inr None
      else
        bind (deref_ptr (validators (rs cs))) (\<lambda>vs.
          let addr = address_of E (local_priv_validator_pub_key cs);
              val_idx = get_index_by_address vs addr
          in if val_idx < 0 then Inr None
             else Inr (Some \<lparr>vote_type = msg_type, vote_height = height (rs cs),
                              vote_round = round (rs cs),
                              vote_block_id = \<lparr>hash = h, parts = hdr\<rparr>,
                              vote_timestamp = vote_time cs, validator_address = addr,
                              validator_index = val_idx\<rparr>)))"

definition sign_add_vote ::
  "env \<Rightarrow> consensus_state \<Rightarrow> signed_msg_type \<Rightarrow> bytes \<Rightarrow> part_set_header \<Rightarrow> error + consensus_state" where
  "sign_add_vote E cs msg_type h hdr =
     (if local_priv_validator cs = None then Inr cs
      else if local_priv_validator_pub_key cs = [] then Inr cs
      else
        bind (deref_ptr (validators (rs cs))) (\<lambda>vs.
          if \<not> has_address vs (address_of E (local_priv_validator_pub_key cs)) then Inr cs
          else
            bind (sign_vote E cs msg_type h hdr) (\<lambda>signed.
              case signed of
                Some v \<Rightarrow> Inr (cs\<lparr>internal_mq := internal_mq cs @ [VoteMsg v]\<rparr>)
              | None \<Rightarrow> Inr cs)))"

subsection \<open>Prevote\<close>

definition do_prevote :: "env \<Rightarrow> consensus_state \<Rightarrow> int \<Rightarrow> int \<Rightarrow> error + consensus_state" where
  "do_prevote E cs h r =
     (case locked_block (rs cs) of
        Some lb \<Rightarrow>
          bind (deref (locked_block_parts (rs cs))) (\<lambda>ps.
            sign_add_vote E cs p2p_Prevote (get_hash lb) (ps_header ps))
      | None \<Rightarrow>
          (case proposal_block (rs cs) of
             None \<Rightarrow> sign_add_vote E cs p2p_Prevote nil_hash nil_part_set_header
           | Some pb \<Rightarrow>
               bind (deref (proposal_block_parts (rs cs))) (\<lambda>ps.
                 sign_add_vote E cs p2p_Prevote (get_hash pb) (ps_header ps))))"

definition enter_prevote :: "env \<Rightarrow> consensus_state \<Rightarrow> int \<Rightarrow> int \<Rightarrow> error + consensus_state" where
  "enter_prevote E cs h r =
     (if height (rs cs) \<noteq> h \<or> r < round (rs cs) \<or> (round (rs cs) = r \<and> Prevote \<le> step (rs cs))
      then Inr cs
      else
        bind (do_prevote E cs h r) (\<lambda>cs1.
          Inr (new_step (update_round_step cs1 r Prevote))))"

subsection \<open>Propose\<close>

definition is_proposal_complete :: "consensus_state \<Rightarrow> error + bool" where
  "is_proposal_complete cs =
     (case proposal (rs cs) of
        None \<Rightarrow> Inr False
      | Some p \<Rightarrow>
          if proposal_block (rs cs) = None then Inr False
          else if pol_round p < 0 then Inr True
          else
            bind (deref_ptr (votes (rs cs))) (\<lambda>hvs.
              Inr (has_two_thirds_majority (prevotes hvs (pol_round p)))))"

definition is_proposal :: "validator_set \<Rightarrow> bytes \<Rightarrow> error + bool" where
  "is_proposal vs a = bind (deref_ptr (proposer vs)) (\<lambda>p. Inr (address p = a))"

text \<open>
  \<^verbatim>\<open>decide_proposal\<close>. Without a valid block the sources never build a block (the call to the
  mempool is not written yet), so that branch always returns before a proposal is made. With
  a valid block, the loop over the parts publishes the proposal again for every part: the
  block part message it builds is not the one it publishes.
\<close>

definition decide_proposal :: "env \<Rightarrow> consensus_state \<Rightarrow> int \<Rightarrow> int \<Rightarrow> error + consensus_state" where
  "decide_proposal E cs h r =
     (case valid_block (rs cs) of
        Some b \<Rightarrow>
          bind (deref (valid_block_parts (rs cs))) (\<lambda>bparts.
            let prop_block_id = \<lparr>hash = get_hash b, parts = ps_header bparts\<rparr>;
                prop = new_proposal h r (valid_round (rs cs)) prop_block_id (clock cs)
            in Inr (cs\<lparr>internal_mq :=
                        internal_mq cs @ ProposalMsg prop #
                          replicate (ps_total bparts) (ProposalMsg prop)\<rparr>))
      | None \<Rightarrow>
          if local_priv_validator cs = None
          then Inl (RuntimeError ''attempted to create proposal block with empty priv_validator'')
          else if height (rs cs) = initial_height (local_state cs) then Inr cs
          else bind (deref (last_commit (rs cs))) (\<lambda>lc. Inr cs))"

definition enter_propose :: "env \<Rightarrow> consensus_state \<Rightarrow> int \<Rightarrow> int \<Rightarrow> error + consensus_state" where
  "enter_propose E cs h r =
     (if height (rs cs) \<noteq> h \<or> r < round (rs cs) \<or> (round (rs cs) = r \<and> Propose \<le> step (rs cs))
      then Inr cs
      else
        let cs1 = schedule_timeout cs (propose (cs_config cs) r) h r Propose in
        bind
          (if local_priv_validator cs1 = None then Inr cs1
           else if local_priv_validator_pub_key cs1 = [] then Inr cs1
           else
             bind (deref_ptr (validators (rs cs1))) (\<lambda>vs.
               let address = address_of E (local_priv_validator_pub_key cs1) in
               if \<not> has_address vs address then Inr cs1
               else
                 bind (is_proposal vs address) (\<lambda>ours.
                   if ours then decide_proposal E cs1 h r else Inr cs1)))
          (\<lambda>cs2.
             let cs3 = new_step (update_round_step cs2 r Propose) in
             bind (is_proposal_complete cs3) (\<lambda>complete.
               if complete then enter_prevote E cs3 h (round (rs cs3)) else Inr cs3)))"

subsection \<open>New round\<close>

definition enter_new_round :: "env \<Rightarrow> consensus_state \<Rightarrow> int \<Rightarrow> int \<Rightarrow> error + consensus_state" where
  "enter_new_round E cs h r =
     (if height (rs cs) \<noteq> h \<or> r < round (rs cs) \<or> (round (rs cs) = r \<and> step (rs cs) \<noteq> NewHeight)
      then Inr cs
      else
        bind
          (if round (rs cs) < r
           then bind (deref_ptr (validators (rs cs))) (\<lambda>vs.
                  Inr (Some (increment_proposer_priority E (to_int32 (r - round (rs cs))) vs)))
           else Inr (validators (rs cs)))
          (\<lambda>vals.
             let cs1 = update_round_step cs r NewRound;
                 cs2 = cs1\<lparr>rs := (rs cs1)\<lparr>validators := vals\<rparr>\<rparr>;
                 cs3 = (if r = 0 then cs2
                        else cs2\<lparr>rs := (rs cs2)\<lparr>proposal := None, proposal_block := None,
                                              proposal_block_parts := None\<rparr>\<rparr>)
             in bind (deref_ptr (votes (rs cs3))) (\<lambda>hvs.
                  let cs4 = cs3\<lparr>rs := (rs cs3)\<lparr>votes := Some (set_round hvs (to_int32 (r + 1))),
                                                triggered_timeout_precommit := False\<rparr>\<rparr>
                  in enter_propose E cs4 h r)))"

subsection \<open>Prevote wait, precommit, precommit wait\<close>

definition enter_prevote_wait :: "env \<Rightarrow> consensus_state \<Rightarrow> int \<Rightarrow> int \<Rightarrow> error + consensus_state" where
  "enter_prevote_wait E cs h r =
     (if height (rs cs) \<noteq> h \<or> r < round (rs cs) \<or> (round (rs cs) = r \<and> PrevoteWait \<le> step (rs cs))
      then Inr cs
      else
        bind (deref_ptr (votes (rs cs))) (\<lambda>hvs.
          if has_two_thirds_any (prevotes hvs r)
          then Inl (RuntimeError
                 ''entering prevote_wait step ({}/{}), but prevotes does not have any 2/3+ votes'')
          else
            let cs1 = schedule_timeout cs (prevote (cs_config cs) r) h r PrevoteWait
            in Inr (new_step (update_round_step cs1 r PrevoteWait))))"

definition enter_precommit :: "env \<Rightarrow> consensus_state \<Rightarrow> int \<Rightarrow> int \<Rightarrow> error + consensus_state" where
  "enter_precommit E cs h r =
     (if height (rs cs) \<noteq> h \<or> r < round (rs cs) \<or> (round (rs cs) = r \<and> Precommit \<le> step (rs cs))
      then Inr cs
      else
        bind (deref_ptr (votes (rs cs))) (\<lambda>hvs.
          bind
            (case two_thirds_majority (prevotes hvs r) of
               None \<Rightarrow> sign_add_vote E cs p2p_Precommit nil_hash nil_part_set_header
             | Some bid \<Rightarrow>
                 if pol_info hvs < r
                 then Inl (RuntimeError ''pol_round should be {} but got {}'')
                 else if hash bid = [] then
                   sign_add_vote E
                     (if locked_block (rs cs) = None then cs
                      else cs\<lparr>rs := (rs cs)\<lparr>locked_round := - 1, locked_block := None,
                                            locked_block_parts := None\<rparr>\<rparr>)
                     p2p_Precommit nil_hash nil_part_set_header
                 else
                   bind (deref (locked_block (rs cs))) (\<lambda>lb.
                     if hashes_to lb (hash bid) then
                       sign_add_vote E (cs\<lparr>rs := (rs cs)\<lparr>locked_round := r\<rparr>\<rparr>)
                         p2p_Precommit (hash bid) (parts bid)
                     else
                       bind (deref (proposal_block (rs cs))) (\<lambda>pb.
                         if hashes_to pb (hash bid) then
                           sign_add_vote E
                             (cs\<lparr>rs := (rs cs)\<lparr>locked_round := r,
                                   locked_block := proposal_block (rs cs),
                                   locked_block_parts := proposal_block_parts (rs cs)\<rparr>\<rparr>)
                             p2p_Precommit (hash bid) (parts bid)
                         else
                           let cs1 = cs\<lparr>rs := (rs cs)\<lparr>locked_round := - 1, locked_block := None,
                                                      locked_block_parts := None\<rparr>\<rparr>
                           in bind (deref (proposal_block_parts (rs cs1))) (\<lambda>ps.
                                sign_add_vote E
                                  (if \<not> has_header ps (parts bid)
                                   then cs1\<lparr>rs := (rs cs1)\<lparr>proposal_block := None,
                                           proposal_block_parts :=
                                             Some (new_part_set_from_header (parts bid))\<rparr>\<rparr>
                                   else cs1)
                                  p2p_Precommit nil_hash nil_part_set_header))))
            (\<lambda>cs2. Inr (new_step (update_round_step cs2 r Precommit)))))"

definition enter_precommit_wait :: "env \<Rightarrow> consensus_state \<Rightarrow> int \<Rightarrow> int \<Rightarrow> error + consensus_state" where
  "enter_precommit_wait E cs h r =
     (if height (rs cs) \<noteq> h \<or> r < round (rs cs) \<or>
         (round (rs cs) = r \<and> triggered_timeout_precommit (rs cs))
      then Inr cs
      else
        bind (deref_ptr (votes (rs cs))) (\<lambda>hvs.
          if has_two_thirds_any (precommits hvs r)
          then Inl (RuntimeError
                 ''entering precommit_wait step ({}/{}), but prevotes does not have any 2/3+ votes'')
          else
            let cs1 = schedule_timeout cs (precommit (cs_config cs) r) h r PrecommitWait
            in Inr (new_step (cs1\<lparr>rs := (rs cs1)\<lparr>triggered_timeout_precommit := True\<rparr>\<rparr>))))"

subsection \<open>Moving to the next height\<close>

definition update_priv_validator_pub_key :: "consensus_state \<Rightarrow> consensus_state" where
  "update_priv_validator_pub_key cs =
     (case local_priv_validator cs of
        None \<Rightarrow> cs
      | Some pv \<Rightarrow> cs\<lparr>local_priv_validator_pub_key := pv_pub_key pv\<rparr>)"

definition schedule_round_0 :: "consensus_state \<Rightarrow> consensus_state" where
  "schedule_round_0 cs =
     schedule_timeout cs (start_time (rs cs) - clock cs) (height (rs cs)) 0 NewHeight"

text \<open>
  \<^verbatim>\<open>update_to_state\<close>, in three parts: the part that forms \<^verbatim>\<open>rs.last_commit\<close>
  (\<open>form_last_commit\<close>), the part that resets the fields of the round state
  (\<open>reset_round_state\<close>), and the function itself with its consistency checks.
\<close>

definition form_last_commit :: "consensus_state \<Rightarrow> state \<Rightarrow> error + consensus_state" where
  "form_last_commit cs st =
     (if last_block_height st = 0
      then Inr (cs\<lparr>rs := (rs cs)\<lparr>last_commit := None\<rparr>\<rparr>)
      else
        (case (if commit_round (rs cs) > - 1 then votes (rs cs) else None) of
           Some hvs \<Rightarrow>
             if \<not> has_two_thirds_majority (precommits hvs (commit_round (rs cs)))
             then Inl (RuntimeError ''wanted to form a commit, but precommits (H/R: {}/{}) didn't have 2/3+'')
             else Inr (cs\<lparr>rs := (rs cs)\<lparr>last_commit :=
                              Some (precommits hvs (commit_round (rs cs)))\<rparr>\<rparr>)
         | None \<Rightarrow>
             if last_commit (rs cs) = None
             then Inl (RuntimeError ''last commit cannot be empty after initial block (height={})'')
             else Inr cs))"

definition reset_round_state :: "env \<Rightarrow> consensus_state \<Rightarrow> state \<Rightarrow> consensus_state" where
  "reset_round_state E cs st =
     (let h = (if last_block_height st + 1 = 1 then initial_height st
               else last_block_height st + 1);
          cs1 = update_round_step (update_height cs h) 0 NewHeight
      in cs1\<lparr>rs := (rs cs1)\<lparr>
               proposal := None, proposal_block := None, proposal_block_parts := None,
               locked_round := - 1, locked_block := None, locked_block_parts := None,
               valid_round := - 1, valid_block := None, valid_block_parts := None,
               votes := Some (new_height_vote_set E (chain_id st) h (st_validators st)),
               commit_round := - 1,
               last_validators := Some (st_last_validators st),
               triggered_timeout_precommit := False\<rparr>,
             local_state := st\<rparr>)"

definition update_to_state :: "env \<Rightarrow> consensus_state \<Rightarrow> state \<Rightarrow> error + consensus_state" where
  "update_to_state E cs st =
     (if commit_round (rs cs) > - 1 \<and> 0 < height (rs cs) \<and> height (rs cs) \<noteq> last_block_height st
      then Inl (RuntimeError ''update_to_state() unexpected state height of {} but found {}'')
      else if \<not> is_empty E (local_state cs) \<and> last_block_height (local_state cs) > 0 \<and>
              last_block_height (local_state cs) + 1 \<noteq> height (rs cs)
      then Inl (RuntimeError ''inconsistent local_state.last_block_height+1={} vs rs.height='')
      else if \<not> is_empty E (local_state cs) \<and> last_block_height (local_state cs) > 0 \<and>
              height (rs cs) = initial_height (local_state cs)
      then Inl (RuntimeError ''inconsistent local_state.last_block_height={}, expected 0 for initial height {}'')
      else if \<not> is_empty E (local_state cs) \<and>
              last_block_height st \<le> last_block_height (local_state cs)
      then Inr (new_step cs)
      else
        bind (form_last_commit (cs\<lparr>rs := (rs cs)\<lparr>validators := Some (st_validators st)\<rparr>\<rparr>) st)
          (\<lambda>cs1. Inr (new_step (reset_round_state E cs1 st))))"

subsection \<open>Commit\<close>

text \<open>
  \<^verbatim>\<open>finalize_commit\<close>: saving and applying the block is not written in the sources, so the
  state handed to \<^verbatim>\<open>update_to_state\<close> is a copy of \<^verbatim>\<open>local_state\<close>.
\<close>

definition finalize_commit :: "env \<Rightarrow> consensus_state \<Rightarrow> int \<Rightarrow> error + consensus_state" where
  "finalize_commit E cs h =
     (if height (rs cs) \<noteq> h \<or> step (rs cs) \<noteq> Commit then Inr cs
      else
        bind (deref_ptr (votes (rs cs))) (\<lambda>hvs.
          case two_thirds_majority (precommits hvs (commit_round (rs cs))) of
            None \<Rightarrow> Inl (RuntimeError ''cannot finalize commit; commit does not have 2/3 majority'')
          | Some bid \<Rightarrow>
              bind (deref (proposal_block_parts (rs cs))) (\<lambda>bparts.
                if \<not> has_header bparts (parts bid)
                then Inl (RuntimeError ''expected ProposalBlockParts header to be commit header'')
                else
                  bind (deref (proposal_block (rs cs))) (\<lambda>b.
                    if \<not> hashes_to b (hash bid)
                    then Inl (RuntimeError
                           ''cannot finalize commit; proposal block does not hash to commit hash'')
                    else
                      bind (update_to_state E cs (local_state cs)) (\<lambda>cs1.
                        Inr (schedule_round_0 (update_priv_validator_pub_key cs1)))))))"

definition try_finalize_commit :: "env \<Rightarrow> consensus_state \<Rightarrow> int \<Rightarrow> error + consensus_state" where
  "try_finalize_commit E cs h =
     (if height (rs cs) \<noteq> h then Inl (RuntimeError ''try_finalize_commit: rs.height={} vs height={}'')
      else
        bind (deref_ptr (votes (rs cs))) (\<lambda>hvs.
          case two_thirds_majority (precommits hvs (commit_round (rs cs))) of
            None \<Rightarrow> Inr cs
          | Some bid \<Rightarrow>
              if hash bid = [] then Inr cs
              else
                bind (deref (proposal_block (rs cs))) (\<lambda>b.
                  if \<not> hashes_to b (hash bid) then Inr cs else finalize_commit E cs h)))"

definition enter_commit :: "env \<Rightarrow> consensus_state \<Rightarrow> int \<Rightarrow> int \<Rightarrow> error + consensus_state" where
  "enter_commit E cs h r =
     (if height (rs cs) \<noteq> h \<or> Commit \<le> step (rs cs) then Inr cs
      else
        bind (deref_ptr (votes (rs cs))) (\<lambda>hvs.
          case two_thirds_majority (precommits hvs r) of
            None \<Rightarrow> Inl (RuntimeError ''RunActionCommit() expects +2/3 precommits'')
          | Some bid \<Rightarrow>
              bind (deref (locked_block (rs cs))) (\<lambda>lb.
                let cs1 = (if hashes_to lb (hash bid)
                           then cs\<lparr>rs := (rs cs)\<lparr>proposal_block := locked_block (rs cs),
                                   proposal_block_parts := locked_block_parts (rs cs)\<rparr>\<rparr>
                           else cs)
                in bind (deref (proposal_block (rs cs1))) (\<lambda>pb.
                     bind
                       (if \<not> hashes_to pb (hash bid) then
                          bind (deref (proposal_block_parts (rs cs1))) (\<lambda>ps.
                            if \<not> has_header ps (parts bid)
                            then Inr (cs1\<lparr>rs := (rs cs1)\<lparr>proposal_block := None,
                                       proposal_block_parts :=
                                         Some (new_part_set_from_header (parts bid))\<rparr>\<rparr>)
                            else Inr cs1)
                        else Inr cs1)
                       (\<lambda>cs2.
                          let cs3 = update_round_step cs2 r Commit;
                              cs4 = cs3\<lparr>rs := (rs cs3)\<lparr>commit_round := r,
                                                        commit_time := clock cs3\<rparr>\<rparr>
                          in try_finalize_commit E (new_step cs4) h)))))"

subsection \<open>Timeouts\<close>

text \<open>The test of \<^verbatim>\<open>handle_timeout\<close> that ignores a timeout.\<close>

definition timeout_ignored :: "timeout_info \<Rightarrow> round_state \<Rightarrow> bool" where
  "timeout_ignored ti r =
     (ti_height ti \<noteq> height r \<or> ti_round ti < round r \<or>
      (ti_round ti = round r \<and> ti_step ti < step r))"

definition handle_timeout :: "env \<Rightarrow> consensus_state \<Rightarrow> timeout_info \<Rightarrow> error + consensus_state" where
  "handle_timeout E cs ti =
     (if timeout_ignored ti (rs cs) then Inr cs
      else if ti_step ti = NewHeight then enter_new_round E cs (ti_height ti) 0
      else if ti_step ti = NewRound then enter_propose E cs (ti_height ti) 0
      else if ti_step ti = Propose then enter_prevote E cs (ti_height ti) (ti_round ti)
      else if ti_step ti = PrevoteWait then enter_precommit E cs (ti_height ti) (ti_round ti)
      else if ti_step ti = PrecommitWait then
        bind (enter_precommit E cs (ti_height ti) (ti_round ti)) (\<lambda>cs1.
          enter_new_round E cs1 (ti_height ti) (to_int32 (ti_round ti + 1)))
      else Inl (RuntimeError ''invalid timeout step''))"

subsection \<open>Messages\<close>

definition set_proposal :: "consensus_state \<Rightarrow> proposal_message \<Rightarrow> consensus_state" where
  "set_proposal cs msg =
     (if proposal (rs cs) = None then cs
      else if pm_height msg \<noteq> height (rs cs) \<or> pm_round msg \<noteq> round (rs cs) then cs
      else if pol_round msg < - 1 \<or> (pol_round msg \<ge> 0 \<and> pol_round msg \<ge> pm_round msg) then cs
      else
        let cs1 = cs\<lparr>rs := (rs cs)\<lparr>proposal := Some msg\<rparr>\<rparr>
        in if proposal_block_parts (rs cs1) = None
           then cs1\<lparr>rs := (rs cs1)\<lparr>proposal_block_parts :=
                      Some (new_part_set_from_header (parts (pm_block_id msg)))\<rparr>\<rparr>
           else cs1)"

text \<open>The two cases of the \<^verbatim>\<open>switch\<close> on the vote type in \<^verbatim>\<open>add_vote\<close>.\<close>

definition add_vote_prevote ::
  "env \<Rightarrow> consensus_state \<Rightarrow> vote \<Rightarrow> vote_set \<Rightarrow> int \<Rightarrow> error + consensus_state" where
  "add_vote_prevote E cs v prevotes_r height_r =
     bind
       (case two_thirds_majority prevotes_r of
          None \<Rightarrow> Inr cs
        | Some bid \<Rightarrow>
            let cs1 =
                  (case locked_block (rs cs) of
                     None \<Rightarrow> cs
                   | Some lb \<Rightarrow>
                       if locked_round (rs cs) < vote_round v \<and> vote_round v \<le> round (rs cs) \<and>
                          \<not> hashes_to lb (hash bid)
                       then cs\<lparr>rs := (rs cs)\<lparr>locked_round := - 1, locked_block := None,
                                             locked_block_parts := None\<rparr>\<rparr>
                       else cs)
            in if hash bid \<noteq> [] \<and> valid_round (rs cs1) < vote_round v \<and>
                  vote_round v = round (rs cs1)
               then
                 bind (deref (proposal_block (rs cs1))) (\<lambda>pb.
                   let cs2 =
                         (if hashes_to pb (hash bid)
                          then cs1\<lparr>rs := (rs cs1)\<lparr>valid_round := vote_round v,
                                  valid_block := proposal_block (rs cs1),
                                  valid_block_parts := proposal_block_parts (rs cs1)\<rparr>\<rparr>
                          else cs1\<lparr>rs := (rs cs1)\<lparr>proposal_block := None\<rparr>\<rparr>)
                   in bind (deref (proposal_block_parts (rs cs2))) (\<lambda>ps.
                        if \<not> has_header ps (parts bid)
                        then Inr (cs2\<lparr>rs := (rs cs2)\<lparr>proposal_block_parts :=
                                         Some (new_part_set_from_header (parts bid))\<rparr>\<rparr>)
                        else Inr cs2))
               else Inr cs1)
       (\<lambda>cs3.
          if round (rs cs3) < vote_round v \<and> has_two_thirds_any prevotes_r
          then enter_new_round E cs3 height_r (vote_round v)
          else if round (rs cs3) = vote_round v \<and> Prevote \<le> step (rs cs3) then
            (case two_thirds_majority prevotes_r of
               Some b_id \<Rightarrow>
                 bind (is_proposal_complete cs3) (\<lambda>complete.
                   if complete \<or> hash b_id = []
                   then enter_precommit E cs3 height_r (vote_round v)
                   else if has_two_thirds_any prevotes_r
                   then enter_prevote_wait E cs3 height_r (vote_round v)
                   else Inr cs3)
             | None \<Rightarrow>
                 if has_two_thirds_any prevotes_r
                 then enter_prevote_wait E cs3 height_r (vote_round v)
                 else Inr cs3)
          else
            (case proposal (rs cs3) of
               None \<Rightarrow> Inr cs3
             | Some p \<Rightarrow>
                 if 0 \<le> pol_round p \<and> pol_round p = vote_round v then
                   bind (is_proposal_complete cs3) (\<lambda>complete.
                     if complete then enter_prevote E cs3 height_r (round (rs cs3)) else Inr cs3)
                 else Inr cs3))"

definition add_vote_precommit ::
  "env \<Rightarrow> consensus_state \<Rightarrow> vote \<Rightarrow> vote_set \<Rightarrow> int \<Rightarrow> error + consensus_state" where
  "add_vote_precommit E cs v precommits_r height_r =
     (case two_thirds_majority precommits_r of
        Some bid \<Rightarrow>
          bind (enter_new_round E cs height_r (vote_round v)) (\<lambda>cs1.
            bind (enter_precommit E cs1 height_r (vote_round v)) (\<lambda>cs2.
              if hash bid \<noteq> [] then
                bind (enter_commit E cs2 height_r (vote_round v)) (\<lambda>cs3.
                  if skip_timeout_commit (cs_config cs3) \<and> has_all precommits_r
                  then enter_new_round E cs3 (height (rs cs3)) 0
                  else Inr cs3)
              else enter_precommit_wait E cs2 height_r (vote_round v)))
      | None \<Rightarrow>
          if round (rs cs) \<le> vote_round v \<and> has_two_thirds_any precommits_r then
            bind (enter_new_round E cs height_r (vote_round v)) (\<lambda>cs1.
              enter_precommit_wait E cs1 height_r (vote_round v))
          else Inr cs)"

definition add_vote ::
  "env \<Rightarrow> consensus_state \<Rightarrow> vote \<Rightarrow> string \<Rightarrow> error + bool \<times> consensus_state" where
  "add_vote E cs v peer_id =
     (if vote_height v + 1 = height (rs cs) \<and> vote_type v = p2p_Precommit then
        (if step (rs cs) \<noteq> NewHeight then Inr (False, cs)
         else
           bind (deref (last_commit (rs cs))) (\<lambda>lc.
             case vs_add_vote E lc v of
               (added, lc1) \<Rightarrow>
                 let cs1 = cs\<lparr>rs := (rs cs)\<lparr>last_commit := Some lc1\<rparr>\<rparr> in
                 if \<not> added then Inr (False, cs1)
                 else if skip_timeout_commit (cs_config cs1) \<and> has_all lc1 then
                   bind (enter_new_round E cs1 (height (rs cs1)) 0) (\<lambda>cs2. Inr (False, cs2))
                 else Inr (False, cs1)))
      else if vote_height v \<noteq> height (rs cs) then Inr (False, cs)
      else
        bind (deref_ptr (votes (rs cs))) (\<lambda>hvs.
          case hvs_add_vote E hvs v peer_id of
            (added, hvs1) \<Rightarrow>
              let height_r = height (rs cs);
                  cs1 = cs\<lparr>rs := (rs cs)\<lparr>votes := Some hvs1\<rparr>\<rparr>
              in if \<not> added then Inr (False, cs1)
                 else
                   bind
                     (case vote_type v of
                        p2p_Prevote \<Rightarrow>
                          add_vote_prevote E cs1 v (prevotes hvs1 (vote_round v)) height_r
                      | p2p_Precommit \<Rightarrow>
                          add_vote_precommit E cs1 v (precommits hvs1 (vote_round v)) height_r
                      | _ \<Rightarrow> Inl (RuntimeError ''unexpected vote type={}''))
                     (\<lambda>cs2. Inr (added, cs2))))"

subsection \<open>The state store: validator sets\<close>

text \<open>
  The part of \<^verbatim>\<open>db_store\<close> that saves and loads validator sets. The database and its batches
  (\<^verbatim>\<open>simple_db\<close>) and the codec are outside the sources: a batch is the list of the
  \<^verbatim>\<open>set\<close> calls made on it (each of which succeeds), the database is a map from keys to the
  records written, and a record is stored as it is (the codec decodes what it encoded, and
  never encodes a record as the empty buffer).
\<close>

record validators_info =
  last_height_changed :: int
  v_set :: "validator_set option"

type_synonym batch = "(bytes \<times> validators_info) list"

type_synonym db = "bytes \<rightharpoonup> validators_info"

definition prefix_validators :: char where
  "prefix_validators = char_of (5 :: nat)"

definition val_set_checkpoint_interval :: int where
  "val_set_checkpoint_interval = 100000"

text \<open>The remainder of the C++ operator \<^verbatim>\<open>%\<close>, which truncates towards zero.\<close>

definition cpp_rem :: "int \<Rightarrow> int \<Rightarrow> int" where
  "cpp_rem a b = sgn a * (\<bar>a\<bar> mod \<bar>b\<bar>)"

text \<open>
  \<^verbatim>\<open>fmt::format("{:08x}", height)\<close> of the formatting library: the lower-case hexadecimal
  digits of the value, after the sign of a negative one, padded with zeros to a width of at
  least 8 characters that includes the sign.
\<close>

definition hex_digit :: "nat \<Rightarrow> char" where
  "hex_digit d = ''0123456789abcdef'' ! d"

fun to_hex :: "nat \<Rightarrow> string" where
  "to_hex n = (if n < 16 then [hex_digit n] else to_hex (n div 16) @ [hex_digit (n mod 16)])"

definition pad_zero :: "nat \<Rightarrow> string \<Rightarrow> string" where
  "pad_zero w s = replicate (w - length s) (CHR ''0'') @ s"

definition format_08x :: "int \<Rightarrow> string" where
  "format_08x h =
     (if h < 0 then CHR ''-'' # pad_zero 7 (to_hex (nat (- h))) else pad_zero 8 (to_hex (nat h)))"

definition encode_key :: "char \<Rightarrow> int \<Rightarrow> bytes" where
  "encode_key key_prefix h = key_prefix # format_08x h"

definition save_validators_info ::
  "int \<Rightarrow> int \<Rightarrow> validator_set \<Rightarrow> batch \<Rightarrow> bool \<times> batch" where
  "save_validators_info h c vs b =
     (if c > h then (False, b)
      else
        let v_info = \<lparr>last_height_changed = c,
                      v_set = (if h = c \<or> cpp_rem h val_set_checkpoint_interval = 0
                               then Some vs else None)\<rparr>
        in (True, b @ [(encode_key prefix_validators h, v_info)]))"

text \<open>\<^verbatim>\<open>batch->write_sync()\<close>: the writes of the batch reach the database in order.\<close>

definition write_sync :: "db \<Rightarrow> batch \<Rightarrow> db" where
  "write_sync d b = fold (\<lambda>kv m. m(fst kv \<mapsto> snd kv)) b d"

definition load_validators_info :: "db \<Rightarrow> int \<Rightarrow> validators_info option" where
  "load_validators_info d h = d (encode_key prefix_validators h)"

definition last_stored_height_for :: "int \<Rightarrow> int \<Rightarrow> int" where
  "last_stored_height_for h c =
     (let checkpoint_height = h - cpp_rem h val_set_checkpoint_interval
      in max checkpoint_height c)"

definition load_validators :: "env \<Rightarrow> db \<Rightarrow> int \<Rightarrow> validator_set option" where
  "load_validators E d h =
     (case load_validators_info d h of
        None \<Rightarrow> None
      | Some v_info \<Rightarrow>
          (case v_set v_info of
             Some vs \<Rightarrow> Some vs
           | None \<Rightarrow>
               let last_stored_height = last_stored_height_for h (last_height_changed v_info)
               in (case load_validators_info d last_stored_height of
                     None \<Rightarrow> None
                   | Some v_info2 \<Rightarrow>
                       (case v_set v_info2 of
                          None \<Rightarrow> None
                        | Some vs \<Rightarrow>
                            Some (increment_proposer_priority E
                                    (to_int32 (h - last_height_changed v_info2)) vs)))))"

text \<open>
  \<^verbatim>\<open>save_validator_sets\<close>: the loop over the heights from \<open>lower_height\<close> to
  \<open>upper_height\<close> (\<open>save_heights\<close>, which stops at the first height that cannot be saved), and
  the write of the batch. Nothing is written when a height could not be saved.
\<close>

function save_heights :: "int \<Rightarrow> int \<Rightarrow> int \<Rightarrow> validator_set \<Rightarrow> batch \<Rightarrow> bool \<times> batch" where
  "save_heights height_i lower_height upper_height vs b =
     (if height_i \<le> upper_height then
        (case save_validators_info height_i lower_height vs b of
           (ok, b1) \<Rightarrow>
             if \<not> ok then (False, b1)
             else save_heights (height_i + 1) lower_height upper_height vs b1)
      else (True, b))"
  by pat_completeness auto
termination
  by (relation "measure (\<lambda>(height_i, lower_height, upper_height, vs, b).
        nat (upper_height + 1 - height_i))") auto

definition save_validator_sets :: "db \<Rightarrow> int \<Rightarrow> int \<Rightarrow> validator_set \<Rightarrow> bool \<times> db" where
  "save_validator_sets d lower_height upper_height vs =
     (case save_heights lower_height lower_height upper_height vs [] of
        (ok, b) \<Rightarrow> if ok then (True, write_sync d b) else (False, d))"

subsection \<open>Example objects\<close>

text \<open>
  A network with one validator holding all the voting power: one vote gives its block id the
  2/3 majority of its round, and completes the vote set. Rotating the proposer priority of a
  single validator leaves the set as it is.
\<close>

definition empty_vote_set :: vote_set where
  "empty_vote_set = \<lparr>two_thirds_majority = None, has_two_thirds_any = False, has_all = False\<rparr>"

definition voted :: "block_id \<Rightarrow> vote_set" where
  "voted b = \<lparr>two_thirds_majority = Some b, has_two_thirds_any = True, has_all = True\<rparr>"

definition empty_height_vote_set :: height_vote_set where
  "empty_height_vote_set =
     \<lparr>hvs_round = 0, prevotes = (\<lambda>r. empty_vote_set), precommits = (\<lambda>r. empty_vote_set),
      pol_info = - 1\<rparr>"

definition example_env :: env where
  "example_env =
     \<lparr>hvs_add_vote = (\<lambda>hvs v peer_id.
        (True,
         if vote_type v = p2p_Prevote
         then hvs\<lparr>prevotes := (prevotes hvs)(vote_round v := voted (vote_block_id v)),
                  pol_info := max (pol_info hvs) (vote_round v)\<rparr>
         else hvs\<lparr>precommits := (precommits hvs)(vote_round v := voted (vote_block_id v))\<rparr>)),
      vs_add_vote = (\<lambda>vs v. (True, voted (vote_block_id v))),
      increment_proposer_priority = (\<lambda>n vs. vs),
      new_height_vote_set = (\<lambda>c h vs. empty_height_vote_set),
      address_of = (\<lambda>k. k),
      is_empty = (\<lambda>st. vset_validators (st_validators st) = [])\<rparr>"

definition example_validator :: validator where
  "example_validator = \<lparr>address = ''v1'', voting_power = 10, proposer_priority = 0\<rparr>"

definition example_validators :: validator_set where
  "example_validators = \<lparr>vset_validators = [example_validator], proposer = Some example_validator\<rparr>"

definition no_validators :: validator_set where
  "no_validators = \<lparr>vset_validators = [], proposer = None\<rparr>"

definition genesis_state :: state where
  "genesis_state =
     \<lparr>chain_id = ''noir'', initial_height = 1, last_block_height = 0,
      st_validators = example_validators, st_last_validators = no_validators\<rparr>"

definition example_config :: consensus_config where
  "example_config =
     \<lparr>timeout_propose = 3000, timeout_propose_delta = 500, timeout_prevote = 1000,
      timeout_prevote_delta = 500, timeout_precommit = 1000, timeout_precommit_delta = 500,
      timeout_commit = 1000, skip_timeout_commit = True\<rparr>"

text \<open>
  Modelled from the spec: the round state of a newly constructed \<^verbatim>\<open>consensus_state\<close>, with
  the default values the specification gives for \<^verbatim>\<open>locked_round\<close>, \<^verbatim>\<open>valid_round\<close> and
  \<^verbatim>\<open>commit_round\<close>; every optional and pointer is empty and every number is zero. The
  constructor sets \<^verbatim>\<open>old_ti\<close> to a value-initialised \<^verbatim>\<open>timeout_info\<close>.
\<close>

definition initial_round_state :: round_state where
  "initial_round_state =
     \<lparr>height = 0, round = 0, step = 0, start_time = 0, commit_time = 0, validators = None,
      proposal = None, proposal_block = None, proposal_block_parts = None,
      locked_round = - 1, locked_block = None, locked_block_parts = None,
      valid_round = - 1, valid_block = None, valid_block_parts = None,
      votes = None, commit_round = - 1, last_commit = None, last_validators = None,
      triggered_timeout_precommit = False\<rparr>"

definition initial_consensus_state :: consensus_state where
  "initial_consensus_state =
     \<lparr>cs_config = example_config, rs = initial_round_state,
      local_state = \<lparr>chain_id = [], initial_height = 0, last_block_height = 0,
                      st_validators = no_validators, st_last_validators = no_validators\<rparr>,
      local_priv_validator = None, local_priv_validator_type = MockSignerClient,
      local_priv_validator_pub_key = [],
      old_ti = \<lparr>ti_duration = 0, ti_height = 0, ti_round = 0, ti_step = 0\<rparr>,
      timeout_ticker_timer = [], internal_mq = [], n_steps = 0, clock = 100\<rparr>"

text \<open>
  The state after \<^verbatim>\<open>new_state(config, genesis_state)\<close>, written out: height 1, round 0,
  step \<open>NewHeight\<close>, nothing proposed, locked or valid.
\<close>

definition height1_round_state :: round_state where
  "height1_round_state =
     initial_round_state\<lparr>height := 1, step := NewHeight,
       validators := Some example_validators, votes := Some empty_height_vote_set,
       last_validators := Some no_validators\<rparr>"

definition height1_state :: consensus_state where
  "height1_state =
     initial_consensus_state\<lparr>rs := height1_round_state, local_state := genesis_state,
       n_steps := 1\<rparr>"

definition block_B :: block where
  "block_B = \<lparr>header = \<lparr>bh_height = 1, bh_time = 50\<rparr>, block_hash = ''B''\<rparr>"

definition block_C :: block where
  "block_C = \<lparr>header = \<lparr>bh_height = 1, bh_time = 60\<rparr>, block_hash = ''C''\<rparr>"

definition id_B :: block_id where
  "id_B = \<lparr>hash = ''B'', parts = \<lparr>psh_total = 1, psh_hash = ''pB''\<rparr>\<rparr>"

definition id_D :: block_id where
  "id_D = \<lparr>hash = ''D'', parts = \<lparr>psh_total = 1, psh_hash = ''pD''\<rparr>\<rparr>"

definition id_nil :: block_id where
  "id_nil = \<lparr>hash = nil_hash, parts = nil_part_set_header\<rparr>"

definition parts_B :: part_set where
  "parts_B = \<lparr>ps_total = 1, ps_hash = ''pB'', ps_parts = [Some ''the block B'']\<rparr>"

definition parts_C :: part_set where
  "parts_C = \<lparr>ps_total = 1, ps_hash = ''pC'', ps_parts = [Some ''the block C'']\<rparr>"

definition parts_D_received :: part_set where
  "parts_D_received = \<lparr>ps_total = 1, ps_hash = ''pD'', ps_parts = [Some ''the block D'']\<rparr>"

definition example_vote :: "signed_msg_type \<Rightarrow> int \<Rightarrow> int \<Rightarrow> block_id \<Rightarrow> vote" where
  "example_vote t h r b =
     \<lparr>vote_type = t, vote_height = h, vote_round = r, vote_block_id = b, vote_timestamp = 90,
      validator_address = ''v1'', validator_index = 0\<rparr>"

definition example_proposal :: proposal_message where
  "example_proposal = new_proposal 1 0 (- 1) id_B 80"

definition round0_votes :: "block_id \<Rightarrow> height_vote_set" where
  "round0_votes b =
     \<lparr>hvs_round = 1, prevotes = (\<lambda>r. if r = 0 then voted b else empty_vote_set),
      precommits = (\<lambda>r. if r = 0 then voted b else empty_vote_set), pol_info = 0\<rparr>"

definition prevote_step_state :: "block_id \<Rightarrow> consensus_state" where
  "prevote_step_state b =
     height1_state\<lparr>rs := height1_round_state\<lparr>step := Prevote, votes := Some (round0_votes b)\<rparr>\<rparr>"

text \<open>
  The state in which the precommits of round 0 committed the block with id \<open>b\<close> at height 1,
  and the state of the chain after that block.
\<close>

definition commit_step_state :: "block_id \<Rightarrow> consensus_state" where
  "commit_step_state b =
     height1_state\<lparr>rs := height1_round_state\<lparr>step := Commit, commit_round := 0,
                                              votes := Some (round0_votes b)\<rparr>\<rparr>"

definition state_after_block1 :: state where
  "state_after_block1 = genesis_state\<lparr>last_block_height := 1\<rparr>"

text \<open>
  The state at height 2 that waits for the commit timeout, with a last commit that has the
  majority but not yet every vote.
\<close>

definition height2_state :: consensus_state where
  "height2_state =
     height1_state\<lparr>rs := height1_round_state\<lparr>height := 2,
         last_commit := Some \<lparr>two_thirds_majority = Some id_B, has_two_thirds_any = True,
                               has_all = False\<rparr>\<rparr>,
       local_state := state_after_block1\<rparr>"

text \<open>The height, round and step a call leaves, or its error.\<close>

definition progress :: "error + consensus_state \<Rightarrow> error + int \<times> int \<times> round_step_type" where
  "progress res =
     (case res of
        Inl e \<Rightarrow> Inl e
      | Inr cs \<Rightarrow> Inr (height (rs cs), round (rs cs), step (rs cs)))"

text \<open>
  The order of the specification: a timeout is strictly behind the round state when its
  (height, round, step) is lexicographically smaller.
\<close>

definition spec_strictly_behind :: "timeout_info \<Rightarrow> round_state \<Rightarrow> bool" where
  "spec_strictly_behind ti r =
     (ti_height ti < height r \<or>
      (ti_height ti = height r \<and>
       (ti_round ti < round r \<or> (ti_round ti = round r \<and> ti_step ti < step r))))"

definition example_timeout :: "int \<Rightarrow> int \<Rightarrow> round_step_type \<Rightarrow> timeout_info" where
  "example_timeout h r s = \<lparr>ti_duration = 1000, ti_height = h, ti_round = r, ti_step = s\<rparr>"

definition id_C :: block_id where
  "id_C = \<lparr>hash = ''C'', parts = \<lparr>psh_total = 1, psh_hash = ''pC''\<rparr>\<rparr>"

definition round1_votes :: "block_id \<Rightarrow> height_vote_set" where
  "round1_votes b =
     \<lparr>hvs_round = 2, prevotes = (\<lambda>r. if r = 1 then voted b else empty_vote_set),
      precommits = (\<lambda>r. if r = 1 then voted b else empty_vote_set), pol_info = 1\<rparr>"

text \<open>
  A validator in round 1 of height 1, in step \<open>Prevote\<close>, that locked block \<open>C\<close> in round 0, has
  block \<open>B\<close> as the proposal block, and sees the 2/3 majority of the prevotes and of the
  precommits of round 1 for the block id \<open>b\<close>.
\<close>

definition locked_state :: "block_id \<Rightarrow> consensus_state" where
  "locked_state b =
     height1_state\<lparr>rs := height1_round_state\<lparr>round := 1, step := Prevote,
         votes := Some (round1_votes b),
         locked_round := 0, locked_block := Some block_C, locked_block_parts := Some parts_C,
         proposal_block := Some block_B, proposal_block_parts := Some parts_B\<rparr>,
       local_priv_validator := Some \<lparr>pv_pub_key = ''v1''\<rparr>,
       local_priv_validator_pub_key := ''v1''\<rparr>"

text \<open>The same validator when no votes of round 1 have arrived.\<close>

definition no_polka_state :: consensus_state where
  "no_polka_state =
     (locked_state id_B)\<lparr>rs := (rs (locked_state id_B))\<lparr>votes :=
                                                         Some empty_height_vote_set\<rparr>\<rparr>"

text \<open>The same validator when the parts it is collecting already are those of block \<open>D\<close>.\<close>

definition collecting_D_state :: consensus_state where
  "collecting_D_state =
     (locked_state id_D)\<lparr>rs := (rs (locked_state id_D))\<lparr>proposal_block_parts :=
                                                           Some parts_D_received\<rparr>\<rparr>"

text \<open>The precommit the example validator publishes in round 1 of height 1.\<close>

definition example_precommit :: "block_id \<Rightarrow> int \<Rightarrow> message" where
  "example_precommit b t =
     VoteMsg \<lparr>vote_type = p2p_Precommit, vote_height = 1, vote_round = 1, vote_block_id = b,
              vote_timestamp = t, validator_address = ''v1'', validator_index = 0\<rparr>"

text \<open>What a call leaves of the lock, of the proposal block and its parts, and on the queue.\<close>

definition lock_of ::
  "error + consensus_state \<Rightarrow> error + int \<times> block option \<times> part_set option" where
  "lock_of res =
     (case res of
        Inl e \<Rightarrow> Inl e
      | Inr cs \<Rightarrow> Inr (locked_round (rs cs), locked_block (rs cs), locked_block_parts (rs cs)))"

definition proposal_block_of ::
  "error + consensus_state \<Rightarrow> error + block option \<times> part_set option" where
  "proposal_block_of res =
     (case res of
        Inl e \<Rightarrow> Inl e
      | Inr cs \<Rightarrow> Inr (proposal_block (rs cs), proposal_block_parts (rs cs)))"

definition published :: "error + consensus_state \<Rightarrow> error + message list" where
  "published res = (case res of Inl e \<Rightarrow> Inl e | Inr cs \<Rightarrow> Inr (internal_mq cs))"

text \<open>
  A run from the constructor: \<^verbatim>\<open>new_state\<close> on the genesis state, then the prevote of the
  single validator for block \<open>B\<close> in round 1 arrives.
\<close>

definition run_to_polka :: "error + consensus_state" where
  "run_to_polka =
     bind (update_to_state example_env initial_consensus_state genesis_state) (\<lambda>cs.
       bind (add_vote example_env cs (example_vote p2p_Prevote 1 1 id_B) ''peer'') (\<lambda>res.
         Inr (snd res)))"

definition polka_state :: consensus_state where
  "polka_state = (case run_to_polka of Inr cs \<Rightarrow> cs | Inl e \<Rightarrow> initial_consensus_state)"

text \<open>
  The state of \<^verbatim>\<open>add_vote\<close> between its calls of \<^verbatim>\<open>enter_precommit\<close> and
  \<^verbatim>\<open>enter_commit\<close>, when the precommit of the single validator for \<open>B\<close> in round 0 arrived
  without any prevote.
\<close>

definition precommit_majority_votes :: height_vote_set where
  "precommit_majority_votes =
     \<lparr>hvs_round = 1, prevotes = (\<lambda>r. empty_vote_set),
      precommits = (\<lambda>r. if r = 0 then voted id_B else empty_vote_set), pol_info = - 1\<rparr>"

definition precommit_majority_state :: consensus_state where
  "precommit_majority_state =
     height1_state\<lparr>rs := height1_round_state\<lparr>step := Precommit,
                                              votes := Some precommit_majority_votes\<rparr>\<rparr>"

definition commit_of :: "error + consensus_state \<Rightarrow> error + int \<times> int" where
  "commit_of res =
     (case res of Inl e \<Rightarrow> Inl e | Inr cs \<Rightarrow> Inr (commit_round (rs cs), commit_time (rs cs)))"

subsection \<open>Reading keys back, and example stores\<close>

text \<open>The number a string of lower-case hexadecimal digits denotes.\<close>

fun digit_position :: "string \<Rightarrow> char \<Rightarrow> nat" where
  "digit_position [] c = 0"
| "digit_position (x # xs) c = (if x = c then 0 else Suc (digit_position xs c))"

definition hex_digit_value :: "char \<Rightarrow> nat" where
  "hex_digit_value c = digit_position ''0123456789abcdef'' c"

definition hex_value :: "string \<Rightarrow> nat" where
  "hex_value s = foldl (\<lambda>acc c. 16 * acc + hex_digit_value c) 0 s"

definition is_hex_digit :: "char \<Rightarrow> bool" where
  "is_hex_digit c = (c \<in> set ''0123456789abcdef'')"

text \<open>
  An example rotation of proposer priorities, which adds the number of rounds to every
  priority, and the environment with it.
\<close>

definition shift_priority :: "int \<Rightarrow> validator_set \<Rightarrow> validator_set" where
  "shift_priority n vs =
     vs\<lparr>vset_validators :=
          map (\<lambda>v. v\<lparr>proposer_priority := proposer_priority v + n\<rparr>) (vset_validators vs)\<rparr>"

definition store_env :: env where
  "store_env = example_env\<lparr>increment_proposer_priority := shift_priority\<rparr>"

text \<open>
  The database after the validator set that changed at height 5 was saved for the heights 5,
  6 and 7.
\<close>

definition example_db :: db where
  "example_db =
     write_sync Map.empty
       (snd (save_validators_info 7 5 example_validators
          (snd (save_validators_info 6 5 example_validators
             (snd (save_validators_info 5 5 example_validators []))))))"

text \<open>
  The record \<^verbatim>\<open>save_validators_info\<close> writes at height \<open>k\<close> for a validator set that changed
  at height \<open>lo\<close>.
\<close>

definition saved_info :: "int \<Rightarrow> validator_set \<Rightarrow> int \<Rightarrow> validators_info" where
  "saved_info lo vs k =
     \<lparr>last_height_changed = lo, v_set = (if k = lo \<or> 100000 dvd k then Some vs else None)\<rparr>"

section \<open>Properties\<close>

lemmas step_defs = NewHeight_def NewRound_def Propose_def Prevote_def PrevoteWait_def
  Precommit_def PrecommitWait_def Commit_def

lemmas example_defs = example_env_def height1_state_def height1_round_state_def
  initial_consensus_state_def initial_round_state_def genesis_state_def example_validators_def
  example_validator_def no_validators_def example_config_def empty_height_vote_set_def
  empty_vote_set_def voted_def block_B_def block_C_def id_B_def id_D_def id_nil_def parts_B_def
  parts_C_def parts_D_received_def example_vote_def example_proposal_def new_proposal_def
  nil_hash_def nil_part_set_header_def round0_votes_def prevote_step_state_def

subsection \<open>The timeout ticker\<close>

lemma tick_ignored_trans:
  assumes "ti_less a b" and "0 < ti_step b" and "tick_ignored old b"
  shows "tick_ignored old a"
  using assms by (auto simp: ti_less_def tick_ignored_def split: if_splits)

lemma tick_ignored_after:
  assumes "ti_less a b" and "0 < ti_step b"
  shows "tick_ignored b a"
  using assms by (auto simp: ti_less_def tick_ignored_def split: if_splits)

lemma tick_stores: "\<not> tick_ignored (old_ti cs) ti \<Longrightarrow> old_ti (tick cs ti) = ti"
  by (simp add: tick_def)

text \<open>
  C5. After \<^verbatim>\<open>tick(ti_new)\<close>, a \<^verbatim>\<open>tick(ti_old)\<close> with \<open>ti_old\<close> smaller than \<open>ti_new\<close> by
  (height, round, step) changes nothing: the whole object, and so the stored \<open>old_ti\<close> and the
  operations performed on the timer (no cancel, no new wait), is what the first call left. When
  the first call was not itself ignored, the stored \<open>old_ti\<close> is \<open>ti_new\<close> and stays so. The
  step of \<open>ti_new\<close> is an enumerator of \<^verbatim>\<open>round_step_type\<close>.
\<close>

theorem tick_stale_schedule_is_noop:
  assumes "ti_less ti_old ti_new" and "valid_step (ti_step ti_new)"
  shows "tick (tick cs ti_new) ti_old = tick cs ti_new \<and>
         timeout_ticker_timer (tick (tick cs ti_new) ti_old) = timeout_ticker_timer (tick cs ti_new) \<and>
         (\<not> tick_ignored (old_ti cs) ti_new \<longrightarrow> old_ti (tick (tick cs ti_new) ti_old) = ti_new)"
proof -
  have pos: "0 < ti_step ti_new"
    using assms(2) by (simp add: valid_step_def NewHeight_def)
  have noop: "tick (tick cs ti_new) ti_old = tick cs ti_new"
  proof (cases "tick_ignored (old_ti cs) ti_new")
    case True
    then show ?thesis
      using tick_ignored_trans [OF assms(1) pos] by (simp add: tick_def)
  next
    case False
    then show ?thesis
      using tick_ignored_after [OF assms(1) pos] by (simp add: tick_def)
  qed
  then show ?thesis
    by (simp add: tick_stores)
qed

theorem tick_stale_schedule_is_noop_witness:
  "ti_less \<lparr>ti_duration = 7, ti_height = 1, ti_round = 0, ti_step = NewHeight\<rparr>
           \<lparr>ti_duration = 9, ti_height = 1, ti_round = 0, ti_step = Propose\<rparr> \<and>
   valid_step Propose \<and>
   \<not> tick_ignored (old_ti initial_consensus_state)
        \<lparr>ti_duration = 9, ti_height = 1, ti_round = 0, ti_step = Propose\<rparr> \<and>
   old_ti (tick (tick initial_consensus_state
                   \<lparr>ti_duration = 9, ti_height = 1, ti_round = 0, ti_step = Propose\<rparr>)
                \<lparr>ti_duration = 7, ti_height = 1, ti_round = 0, ti_step = NewHeight\<rparr>) =
     \<lparr>ti_duration = 9, ti_height = 1, ti_round = 0, ti_step = Propose\<rparr> \<and>
   timeout_ticker_timer
     (tick (tick initial_consensus_state
              \<lparr>ti_duration = 9, ti_height = 1, ti_round = 0, ti_step = Propose\<rparr>)
           \<lparr>ti_duration = 7, ti_height = 1, ti_round = 0, ti_step = NewHeight\<rparr>) =
     [Cancel, ExpiresFromNow 9,
      AsyncWait \<lparr>ti_duration = 9, ti_height = 1, ti_round = 0, ti_step = Propose\<rparr>]"
  using tick_stale_schedule_is_noop
    [of "\<lparr>ti_duration = 7, ti_height = 1, ti_round = 0, ti_step = NewHeight\<rparr>"
        "\<lparr>ti_duration = 9, ti_height = 1, ti_round = 0, ti_step = Propose\<rparr>"
        initial_consensus_state]
  by (simp add: ti_less_def valid_step_def step_defs tick_ignored_def tick_def
      initial_consensus_state_def)

subsection \<open>Proposals\<close>

text \<open>
  C1. The guard of \<^verbatim>\<open>set_proposal\<close> is the wrong way round: while no proposal is stored,
  every proposal message is dropped and the object is left as it is, although the message is
  for the current height and round and its POL round is in range. (The comment and the log
  line at the guard say "already have one".)
\<close>

theorem set_proposal_drops_first_proposal:
  assumes "proposal (rs cs) = None"
  shows "set_proposal cs msg = cs"
  using assms by (simp add: set_proposal_def)

theorem set_proposal_drops_first_proposal_witness:
  "proposal (rs height1_state) = None \<and>
   pm_height example_proposal = height (rs height1_state) \<and>
   pm_round example_proposal = round (rs height1_state) \<and>
   pol_round example_proposal = - 1 \<and>
   set_proposal height1_state example_proposal = height1_state \<and>
   proposal (rs (set_proposal height1_state example_proposal)) = None"
  using set_proposal_drops_first_proposal [of height1_state example_proposal]
  by (simp add: example_defs)

text \<open>With a proposal stored, a message that passes the other checks replaces it.\<close>

lemma set_proposal_replaces_stored_proposal:
  assumes "proposal (rs cs) = Some p"
    and "pm_height msg = height (rs cs)" and "pm_round msg = round (rs cs)"
    and "pol_round msg = - 1 \<or> (0 \<le> pol_round msg \<and> pol_round msg < pm_round msg)"
  shows "proposal (rs (set_proposal cs msg)) = Some msg"
  using assms by (auto simp: set_proposal_def Let_def)

subsection \<open>Entering the wait steps\<close>

text \<open>
  C2. The tests of \<^verbatim>\<open>enter_prevote_wait\<close> and \<^verbatim>\<open>enter_precommit_wait\<close> are the wrong way
  round: when the step guard passes and the vote set of the round has 2/3 of any votes, each
  throws (with the message that the votes do not have 2/3), and neither sets the step or the
  flag nor schedules a timeout.
\<close>

theorem enter_wait_throws_with_two_thirds_any:
  assumes "height (rs cs) = h" and "round (rs cs) \<le> r" and "votes (rs cs) = Some hvs"
  shows "(\<not> (round (rs cs) = r \<and> PrevoteWait \<le> step (rs cs)) \<and>
          has_two_thirds_any (prevotes hvs r) \<longrightarrow>
            enter_prevote_wait E cs h r =
              Inl (RuntimeError
                ''entering prevote_wait step ({}/{}), but prevotes does not have any 2/3+ votes'')) \<and>
         (\<not> (round (rs cs) = r \<and> triggered_timeout_precommit (rs cs)) \<and>
          has_two_thirds_any (precommits hvs r) \<longrightarrow>
            enter_precommit_wait E cs h r =
              Inl (RuntimeError
                ''entering precommit_wait step ({}/{}), but prevotes does not have any 2/3+ votes''))"
  using assms
  by (auto simp: enter_prevote_wait_def enter_precommit_wait_def bind_def deref_ptr_def)

theorem enter_wait_throws_with_two_thirds_any_witness:
  "height (rs (prevote_step_state id_B)) = 1 \<and>
   round (rs (prevote_step_state id_B)) = 0 \<and>
   step (rs (prevote_step_state id_B)) = Prevote \<and>
   \<not> triggered_timeout_precommit (rs (prevote_step_state id_B)) \<and>
   votes (rs (prevote_step_state id_B)) = Some (round0_votes id_B) \<and>
   has_two_thirds_any (prevotes (round0_votes id_B) 0) \<and>
   has_two_thirds_any (precommits (round0_votes id_B) 0) \<and>
   enter_prevote_wait example_env (prevote_step_state id_B) 1 0 =
     Inl (RuntimeError ''entering prevote_wait step ({}/{}), but prevotes does not have any 2/3+ votes'') \<and>
   enter_precommit_wait example_env (prevote_step_state id_B) 1 0 =
     Inl (RuntimeError ''entering precommit_wait step ({}/{}), but prevotes does not have any 2/3+ votes'')"
  using enter_wait_throws_with_two_thirds_any
    [of "prevote_step_state id_B" 1 0 "round0_votes id_B" example_env]
  by (simp add: example_defs step_defs)

text \<open>Without 2/3 of any votes, the wait steps are entered and their timeouts scheduled.\<close>

lemma enter_prevote_wait_without_two_thirds_any:
  assumes "height (rs cs) = h" and "round (rs cs) \<le> r" and "votes (rs cs) = Some hvs"
    and "\<not> (round (rs cs) = r \<and> PrevoteWait \<le> step (rs cs))"
    and "\<not> has_two_thirds_any (prevotes hvs r)"
  shows "enter_prevote_wait E cs h r =
           Inr (new_step (update_round_step
                  (schedule_timeout cs (prevote (cs_config cs) r) h r PrevoteWait) r PrevoteWait))"
  using assms by (auto simp: enter_prevote_wait_def bind_def deref_ptr_def)

lemmas example_defs2 = commit_step_state_def state_after_block1_def height2_state_def
  example_timeout_def

lemmas fun_defs = bind_def deref_def deref_ptr_def update_round_step_def update_height_def
  new_step_def schedule_timeout_def tick_def tick_ignored_def propose_def prevote_def
  precommit_def has_two_thirds_majority_def set_round_def get_hash_def hashes_to_def
  ps_header_def has_header_def new_part_set_from_header_def has_address_def
  get_index_by_address_def is_proposal_def is_proposal_complete_def to_int32_def

subsection \<open>Timeouts\<close>

lemma to_int32_id: "- (2 ^ 31) \<le> x \<Longrightarrow> x < 2 ^ 31 \<Longrightarrow> to_int32 x = x"
  by (simp add: to_int32_def)

lemma timeout_ignored_iff:
  "timeout_ignored ti r \<longleftrightarrow> height r < ti_height ti \<or> spec_strictly_behind ti r"
  by (auto simp: timeout_ignored_def spec_strictly_behind_def)

text \<open>
  C4, as stated, fails: a timeout for a later height is not behind the round state, yet
  \<^verbatim>\<open>handle_timeout\<close> ignores it. Here the step of the timeout is \<open>Commit\<close>, for which a
  dispatch would throw, and the call returns the state as it was.
\<close>

theorem handle_timeout_drops_later_height:
  "\<not> spec_strictly_behind (example_timeout 2 0 Commit) (rs height1_state) \<and>
   handle_timeout example_env height1_state (example_timeout 2 0 Commit) = Inr height1_state"
  by (simp add: spec_strictly_behind_def handle_timeout_def timeout_ignored_def example_defs
      example_defs2 step_defs)

text \<open>
  C4, amended. \<^verbatim>\<open>handle_timeout(ti)\<close> ignores \<open>ti\<close>, leaving the state as it is, exactly when
  \<open>ti\<close> is for another height than the current one, or for an earlier round, or for the current
  round and an earlier step; that is, when it is strictly behind the round state or for a
  later height. Otherwise it dispatches on the step of \<open>ti\<close>: \<open>NewHeight\<close> to
  \<^verbatim>\<open>enter_new_round(ti.height, 0)\<close>, \<open>NewRound\<close> to \<^verbatim>\<open>enter_propose(ti.height, 0)\<close>, \<open>Propose\<close>
  to \<^verbatim>\<open>enter_prevote(ti.height, ti.round)\<close>, \<open>PrevoteWait\<close> to
  \<^verbatim>\<open>enter_precommit(ti.height, ti.round)\<close>, \<open>PrecommitWait\<close> to
  \<^verbatim>\<open>enter_precommit(ti.height, ti.round)\<close> followed by
  \<^verbatim>\<open>enter_new_round(ti.height, ti.round + 1)\<close>; every other step throws. The sum
  \<open>ti.round + 1\<close> is a 32-bit sum: it is the next round for every round below \<open>2^31 - 1\<close>, and
  at \<open>2^31 - 1\<close> it wraps around to \<open>-2^31\<close>.
\<close>

theorem handle_timeout_dispatch:
  "(timeout_ignored ti (rs cs) \<longleftrightarrow>
      height (rs cs) < ti_height ti \<or> spec_strictly_behind ti (rs cs)) \<and>
   (timeout_ignored ti (rs cs) \<longrightarrow> handle_timeout E cs ti = Inr cs) \<and>
   (\<not> timeout_ignored ti (rs cs) \<longrightarrow>
      (ti_step ti = NewHeight \<longrightarrow>
         handle_timeout E cs ti = enter_new_round E cs (ti_height ti) 0) \<and>
      (ti_step ti = NewRound \<longrightarrow>
         handle_timeout E cs ti = enter_propose E cs (ti_height ti) 0) \<and>
      (ti_step ti = Propose \<longrightarrow>
         handle_timeout E cs ti = enter_prevote E cs (ti_height ti) (ti_round ti)) \<and>
      (ti_step ti = PrevoteWait \<longrightarrow>
         handle_timeout E cs ti = enter_precommit E cs (ti_height ti) (ti_round ti)) \<and>
      (ti_step ti = PrecommitWait \<longrightarrow>
         handle_timeout E cs ti =
           bind (enter_precommit E cs (ti_height ti) (ti_round ti))
             (\<lambda>cs1. enter_new_round E cs1 (ti_height ti) (to_int32 (ti_round ti + 1)))) \<and>
      (ti_step ti = PrecommitWait \<and> - (2 ^ 31) \<le> ti_round ti \<and> ti_round ti < 2 ^ 31 - 1 \<longrightarrow>
         handle_timeout E cs ti =
           bind (enter_precommit E cs (ti_height ti) (ti_round ti))
             (\<lambda>cs1. enter_new_round E cs1 (ti_height ti) (ti_round ti + 1))) \<and>
      (ti_step ti = PrecommitWait \<and> ti_round ti = 2 ^ 31 - 1 \<longrightarrow>
         handle_timeout E cs ti =
           bind (enter_precommit E cs (ti_height ti) (ti_round ti))
             (\<lambda>cs1. enter_new_round E cs1 (ti_height ti) (- (2 ^ 31)))) \<and>
      (ti_step ti \<notin> {NewHeight, NewRound, Propose, PrevoteWait, PrecommitWait} \<longrightarrow>
         handle_timeout E cs ti = Inl (RuntimeError ''invalid timeout step'')))"
proof -
  let ?ign = "timeout_ignored ti (rs cs)"
  let ?dispatch =
    "if ti_step ti = NewHeight then enter_new_round E cs (ti_height ti) 0
     else if ti_step ti = NewRound then enter_propose E cs (ti_height ti) 0
     else if ti_step ti = Propose then enter_prevote E cs (ti_height ti) (ti_round ti)
     else if ti_step ti = PrevoteWait then enter_precommit E cs (ti_height ti) (ti_round ti)
     else if ti_step ti = PrecommitWait then
       bind (enter_precommit E cs (ti_height ti) (ti_round ti))
         (\<lambda>cs1. enter_new_round E cs1 (ti_height ti) (to_int32 (ti_round ti + 1)))
     else Inl (RuntimeError ''invalid timeout step'')"
  have ignored: "?ign \<Longrightarrow> handle_timeout E cs ti = Inr cs"
    by (simp add: handle_timeout_def)
  have dispatched: "\<not> ?ign \<Longrightarrow> handle_timeout E cs ti = ?dispatch"
    by (simp add: handle_timeout_def)
  have c1: "\<not> ?ign \<Longrightarrow> ti_step ti = NewHeight \<Longrightarrow>
      handle_timeout E cs ti = enter_new_round E cs (ti_height ti) 0"
    by (simp add: dispatched)
  have c2: "\<not> ?ign \<Longrightarrow> ti_step ti = NewRound \<Longrightarrow>
      handle_timeout E cs ti = enter_propose E cs (ti_height ti) 0"
    by (simp add: dispatched step_defs)
  have c3: "\<not> ?ign \<Longrightarrow> ti_step ti = Propose \<Longrightarrow>
      handle_timeout E cs ti = enter_prevote E cs (ti_height ti) (ti_round ti)"
    by (simp add: dispatched step_defs)
  have c4: "\<not> ?ign \<Longrightarrow> ti_step ti = PrevoteWait \<Longrightarrow>
      handle_timeout E cs ti = enter_precommit E cs (ti_height ti) (ti_round ti)"
    by (simp add: dispatched step_defs)
  have c5: "\<not> ?ign \<Longrightarrow> ti_step ti = PrecommitWait \<Longrightarrow>
      handle_timeout E cs ti =
        bind (enter_precommit E cs (ti_height ti) (ti_round ti))
          (\<lambda>cs1. enter_new_round E cs1 (ti_height ti) (to_int32 (ti_round ti + 1)))"
    by (simp add: dispatched step_defs)
  have next_round: "to_int32 (ti_round ti + 1) = ti_round ti + 1"
    if "- (2 ^ 31) \<le> ti_round ti" "ti_round ti < 2 ^ 31 - 1"
    using that by (intro to_int32_id) simp_all
  have wrapped: "to_int32 (ti_round ti + 1) = - (2 ^ 31)" if "ti_round ti = 2 ^ 31 - 1"
    using that by (simp add: to_int32_def)
  have c5a: "\<not> ?ign \<Longrightarrow> ti_step ti = PrecommitWait \<Longrightarrow>
      - (2 ^ 31) \<le> ti_round ti \<Longrightarrow> ti_round ti < 2 ^ 31 - 1 \<Longrightarrow>
      handle_timeout E cs ti =
        bind (enter_precommit E cs (ti_height ti) (ti_round ti))
          (\<lambda>cs1. enter_new_round E cs1 (ti_height ti) (ti_round ti + 1))"
    using c5 next_round by simp
  have c5b: "\<not> ?ign \<Longrightarrow> ti_step ti = PrecommitWait \<Longrightarrow> ti_round ti = 2 ^ 31 - 1 \<Longrightarrow>
      handle_timeout E cs ti =
        bind (enter_precommit E cs (ti_height ti) (ti_round ti))
          (\<lambda>cs1. enter_new_round E cs1 (ti_height ti) (- (2 ^ 31)))"
    using c5 wrapped by simp
  have c6: "\<not> ?ign \<Longrightarrow>
      ti_step ti \<notin> {NewHeight, NewRound, Propose, PrevoteWait, PrecommitWait} \<Longrightarrow>
      handle_timeout E cs ti = Inl (RuntimeError ''invalid timeout step'')"
    by (simp add: dispatched)
  show ?thesis
    using timeout_ignored_iff [of ti "rs cs"] ignored c1 c2 c3 c4 c5 c5a c5b c6 by blast
qed


lemmas step_fun_defs = enter_new_round_def enter_propose_def decide_proposal_def
  enter_prevote_def do_prevote_def sign_add_vote_def sign_vote_def vote_time_def
  enter_precommit_def enter_prevote_wait_def enter_precommit_wait_def enter_commit_def
  try_finalize_commit_def finalize_commit_def update_to_state_def form_last_commit_def
  reset_round_state_def
  update_priv_validator_pub_key_def schedule_round_0_def

theorem handle_timeout_dispatch_witness:
  "timeout_ignored (example_timeout 1 0 NewHeight) (rs (prevote_step_state id_B)) \<and>
   spec_strictly_behind (example_timeout 1 0 NewHeight) (rs (prevote_step_state id_B)) \<and>
   handle_timeout example_env (prevote_step_state id_B) (example_timeout 1 0 NewHeight) =
     Inr (prevote_step_state id_B) \<and>
   \<not> timeout_ignored (example_timeout 1 0 NewHeight) (rs height1_state) \<and>
   progress (handle_timeout example_env height1_state (example_timeout 1 0 NewHeight)) =
     Inr (1, 0, Propose) \<and>
   progress (handle_timeout example_env height1_state (example_timeout 1 0 NewRound)) =
     Inr (1, 0, Propose) \<and>
   progress (handle_timeout example_env height1_state (example_timeout 1 0 Propose)) =
     Inr (1, 0, Prevote) \<and>
   progress (handle_timeout example_env height1_state (example_timeout 1 0 PrevoteWait)) =
     Inr (1, 0, Precommit) \<and>
   progress (handle_timeout example_env height1_state (example_timeout 1 0 PrecommitWait)) =
     Inr (1, 1, Propose) \<and>
   to_int32 (2147483647 + 1) = - 2147483648 \<and>
   progress (handle_timeout example_env height1_state
     (example_timeout 1 2147483647 PrecommitWait)) = Inr (1, 2147483647, Precommit) \<and>
   handle_timeout example_env height1_state (example_timeout 1 0 Commit) =
     Inl (RuntimeError ''invalid timeout step'')"
  using handle_timeout_dispatch
      [of "example_timeout 1 0 NewHeight" "prevote_step_state id_B" example_env]
    handle_timeout_dispatch [of "example_timeout 1 0 NewHeight" height1_state example_env]
    handle_timeout_dispatch [of "example_timeout 1 0 NewRound" height1_state example_env]
    handle_timeout_dispatch [of "example_timeout 1 0 Propose" height1_state example_env]
    handle_timeout_dispatch [of "example_timeout 1 0 PrevoteWait" height1_state example_env]
    handle_timeout_dispatch [of "example_timeout 1 0 PrecommitWait" height1_state example_env]
    handle_timeout_dispatch
      [of "example_timeout 1 2147483647 PrecommitWait" height1_state example_env]
    handle_timeout_dispatch [of "example_timeout 1 0 Commit" height1_state example_env]
  by (simp add: timeout_ignored_def spec_strictly_behind_def progress_def step_fun_defs fun_defs
      example_defs example_defs2 step_defs)

subsection \<open>Moving to the next height\<close>

lemma bind_eq_Inr: "bind m f = Inr y \<longleftrightarrow> (\<exists>x. m = Inr x \<and> f x = Inr y)"
  by (cases m) (simp_all add: bind_def)

lemma bind_Inr [simp]: "bind (Inr x) f = f x"
  by (simp add: bind_def)

lemma bind_Inl [simp]: "bind (Inl e) f = Inl e"
  by (simp add: bind_def)

lemma deref_Some [simp]: "deref (Some x) = Inr x"
  by (simp add: deref_def)

lemma deref_None [simp]: "deref None = Inl EmptyOptionalAccess"
  by (simp add: deref_def)

lemma deref_ptr_Some [simp]: "deref_ptr (Some x) = Inr x"
  by (simp add: deref_ptr_def)

lemma deref_ptr_None [simp]: "deref_ptr None = Inl NullPointerAccess"
  by (simp add: deref_ptr_def)




text \<open>
  \<^verbatim>\<open>update_to_state\<close> does return when none of its consistency checks fails: the committed
  height matches, the local state is consistent with the round state, and a last commit is
  at hand.
\<close>

lemma update_to_state_returns:
  assumes "\<not> (commit_round (rs cs) > - 1 \<and> 0 < height (rs cs) \<and>
               height (rs cs) \<noteq> last_block_height s)"
    and "is_empty E (local_state cs) \<or> last_block_height (local_state cs) \<le> 0 \<or>
         (last_block_height (local_state cs) + 1 = height (rs cs) \<and>
          height (rs cs) \<noteq> initial_height (local_state cs))"
    and "last_block_height s = 0 \<or>
         (commit_round (rs cs) > - 1 \<and>
          (\<exists>hvs. votes (rs cs) = Some hvs \<and>
                 two_thirds_majority (precommits hvs (commit_round (rs cs))) \<noteq> None)) \<or>
         ((commit_round (rs cs) \<le> - 1 \<or> votes (rs cs) = None) \<and> last_commit (rs cs) \<noteq> None)"
  shows "\<exists>cs'. update_to_state E cs s = Inr cs'"
proof -
  have "\<exists>cs1. form_last_commit (cs\<lparr>rs := (rs cs)\<lparr>validators := Some (st_validators s)\<rparr>\<rparr>) s
          = Inr cs1"
    using assms(3)
    by (auto simp: form_last_commit_def has_two_thirds_majority_def split: option.splits)
  then show ?thesis
    using assms(1,2) unfolding update_to_state_def
    by (auto simp: bind_def)
qed

subsection \<open>Precommits for the previous height\<close>

text \<open>
  C10. A precommit for the height before the current one that arrives in step \<open>NewHeight\<close>
  while \<^verbatim>\<open>rs.last_commit\<close> is empty does not make \<^verbatim>\<open>add_vote\<close> return false: the call
  reads the empty optional (\<^verbatim>\<open>rs.last_commit->add_vote\<close>). The last commit is empty after
  \<^verbatim>\<open>update_to_state\<close> on a state with \<open>last_block_height = 0\<close>, that is at the first height
  of every chain.
\<close>

theorem add_vote_reads_empty_last_commit:
  assumes "vote_height v + 1 = height (rs cs)" and "vote_type v = p2p_Precommit"
    and "step (rs cs) = NewHeight" and "last_commit (rs cs) = None"
  shows "add_vote E cs v peer_id = Inl EmptyOptionalAccess"
  using assms by (simp add: add_vote_def)

theorem add_vote_reads_empty_last_commit_witness:
  "update_to_state example_env initial_consensus_state genesis_state = Inr height1_state \<and>
   last_block_height genesis_state = 0 \<and>
   vote_height (example_vote p2p_Precommit 0 0 id_B) + 1 = height (rs height1_state) \<and>
   vote_type (example_vote p2p_Precommit 0 0 id_B) = p2p_Precommit \<and>
   step (rs height1_state) = NewHeight \<and>
   last_commit (rs height1_state) = None \<and>
   add_vote example_env height1_state (example_vote p2p_Precommit 0 0 id_B) ''peer'' =
     Inl EmptyOptionalAccess"
  using add_vote_reads_empty_last_commit
      [of "example_vote p2p_Precommit 0 0 id_B" height1_state example_env "''peer''"]
  by (simp add: step_fun_defs fun_defs example_defs example_defs2 step_defs)

text \<open>\<^verbatim>\<open>update_to_state\<close> on a state with no block leaves the last commit empty.\<close>

lemma update_to_state_empties_last_commit:
  assumes "update_to_state E cs s = Inr cs'"
    and "is_empty E (local_state cs) \<or> last_block_height (local_state cs) < last_block_height s"
    and "last_block_height s = 0"
  shows "last_commit (rs cs') = None"
proof -
  have "\<not> (\<not> is_empty E (local_state cs) \<and>
           last_block_height s \<le> last_block_height (local_state cs))"
    using assms(2) by auto
  then obtain cs1 where
    "form_last_commit (cs\<lparr>rs := (rs cs)\<lparr>validators := Some (st_validators s)\<rparr>\<rparr>) s = Inr cs1"
    and "cs' = new_step (reset_round_state E cs1 s)"
    using assms(1) unfolding update_to_state_def
    by (auto simp: bind_eq_Inr split: if_splits)
  then show ?thesis
    using assms(3)
    by (auto simp: form_last_commit_def reset_round_state_def Let_def update_round_step_def
        update_height_def new_step_def)
qed

text \<open>
  With a last commit at hand, the same call never returns true. It returns false with the
  vote set as \<^verbatim>\<open>last_commit->add_vote\<close> left it when the vote was not added, and also when
  it was added; and when it was added, \<^verbatim>\<open>skip_timeout_commit\<close> is set and the last commit
  now has all votes, it returns false with the state \<^verbatim>\<open>enter_new_round(rs.height, 0)\<close>
  leaves.
\<close>

lemma add_vote_last_commit_returns_false:
  assumes "vote_height v + 1 = height (rs cs)" and "vote_type v = p2p_Precommit"
    and "step (rs cs) = NewHeight"
  shows "(\<forall>b cs'. add_vote E cs v peer_id = Inr (b, cs') \<longrightarrow> \<not> b) \<and>
         (\<forall>lc added lc1. last_commit (rs cs) = Some lc \<and> vs_add_vote E lc v = (added, lc1) \<longrightarrow>
            add_vote E cs v peer_id =
              (if added \<and> skip_timeout_commit (cs_config cs) \<and> has_all lc1
               then bind (enter_new_round E (cs\<lparr>rs := (rs cs)\<lparr>last_commit := Some lc1\<rparr>\<rparr>)
                            (height (rs cs)) 0)
                      (\<lambda>cs2. Inr (False, cs2))
               else Inr (False, cs\<lparr>rs := (rs cs)\<lparr>last_commit := Some lc1\<rparr>\<rparr>)))"
proof -
  have branch: "add_vote E cs v peer_id =
      bind (deref (last_commit (rs cs))) (\<lambda>lc.
        case vs_add_vote E lc v of
          (added, lc1) \<Rightarrow>
            let cs1 = cs\<lparr>rs := (rs cs)\<lparr>last_commit := Some lc1\<rparr>\<rparr> in
            if \<not> added then Inr (False, cs1)
            else if skip_timeout_commit (cs_config cs1) \<and> has_all lc1 then
              bind (enter_new_round E cs1 (height (rs cs1)) 0) (\<lambda>cs2. Inr (False, cs2))
            else Inr (False, cs1))"
    using assms by (simp add: add_vote_def)
  have never_true: "\<not> b" if ret: "add_vote E cs v peer_id = Inr (b, cs')" for b cs'
  proof (cases "last_commit (rs cs)")
    case None
    then show ?thesis
      using ret unfolding branch by simp
  next
    case (Some lc)
    obtain added lc1 where "vs_add_vote E lc v = (added, lc1)"
      by (cases "vs_add_vote E lc v")
    then show ?thesis
      using ret Some unfolding branch
      by (auto simp: Let_def bind_eq_Inr split: if_splits)
  qed
  have known: "add_vote E cs v peer_id =
      (if added \<and> skip_timeout_commit (cs_config cs) \<and> has_all lc1
       then bind (enter_new_round E (cs\<lparr>rs := (rs cs)\<lparr>last_commit := Some lc1\<rparr>\<rparr>)
                    (height (rs cs)) 0)
              (\<lambda>cs2. Inr (False, cs2))
       else Inr (False, cs\<lparr>rs := (rs cs)\<lparr>last_commit := Some lc1\<rparr>\<rparr>))"
    if "last_commit (rs cs) = Some lc" and "vs_add_vote E lc v = (added, lc1)" for lc added lc1
    using that unfolding branch by (simp add: Let_def)
  show ?thesis
    using never_true known by blast
qed

text \<open>An instance: the vote completes the last commit and the next round is entered.\<close>

lemma add_vote_last_commit_returns_false_example:
  "vote_height (example_vote p2p_Precommit 1 0 id_B) + 1 = height (rs height2_state) \<and>
   vote_type (example_vote p2p_Precommit 1 0 id_B) = p2p_Precommit \<and>
   step (rs height2_state) = NewHeight \<and>
   skip_timeout_commit (cs_config height2_state) \<and>
   vs_add_vote example_env
     \<lparr>two_thirds_majority = Some id_B, has_two_thirds_any = True, has_all = False\<rparr>
     (example_vote p2p_Precommit 1 0 id_B) = (True, voted id_B) \<and>
   has_all (voted id_B) \<and>
   map_sum id fst (add_vote example_env height2_state (example_vote p2p_Precommit 1 0 id_B)
     ''peer'') = Inr False \<and>
   progress (map_sum id snd (add_vote example_env height2_state
     (example_vote p2p_Precommit 1 0 id_B) ''peer'')) = Inr (2, 0, Propose)"
  using add_vote_last_commit_returns_false
      [of "example_vote p2p_Precommit 1 0 id_B" height2_state example_env "''peer''"]
  by (simp add: progress_def add_vote_def step_fun_defs fun_defs example_defs example_defs2
      step_defs)

lemmas example_defs3 = id_C_def round1_votes_def no_polka_state_def locked_state_def collecting_D_state_def example_precommit_def
  lock_of_def proposal_block_of_def published_def run_to_polka_def polka_state_def
  precommit_majority_votes_def precommit_majority_state_def

subsection \<open>Precommit\<close>

text \<open>\<^verbatim>\<open>sign_add_vote\<close> publishes at most a vote: the round state is as before.\<close>

lemma sign_add_vote_round_state:
  assumes "sign_add_vote E cs t h hdr = Inr cs'"
  shows "rs cs' = rs cs"
  using assms unfolding sign_add_vote_def sign_vote_def
  by (auto simp: bind_eq_Inr Let_def split: if_splits option.splits)

text \<open>
  C3, as stated, fails: with a majority for a block that is neither the locked nor the
  proposal block, \<^verbatim>\<open>enter_precommit\<close> keeps the parts it already collects when they have the
  part-set header of the majority; the part set is not reset to an empty one.
\<close>

theorem enter_precommit_keeps_matching_parts:
  "two_thirds_majority (prevotes (round1_votes id_D) 1) = Some id_D \<and>
   votes (rs collecting_D_state) = Some (round1_votes id_D) \<and>
   locked_block (rs collecting_D_state) = Some block_C \<and>
   \<not> hashes_to block_C (hash id_D) \<and>
   proposal_block (rs collecting_D_state) = Some block_B \<and>
   \<not> hashes_to block_B (hash id_D) \<and>
   proposal_block_of (enter_precommit example_env collecting_D_state 1 1) =
     Inr (Some block_B, Some parts_D_received) \<and>
   has_header parts_D_received (parts id_D) \<and>
   parts_D_received \<noteq> new_part_set_from_header (parts id_D)"
  by (simp add: step_fun_defs fun_defs example_defs example_defs2 example_defs3 step_defs)

text \<open>
  C3, amended. Let the step guard of \<^verbatim>\<open>enter_precommit(h, r)\<close> pass and let
  \<^verbatim>\<open>pol_info()\<close> be at least \<open>r\<close> when the prevotes of round \<open>r\<close> have a majority. In every
  case the step becomes \<open>Precommit\<close> in round \<open>r\<close> after the vote is signed and published.
  \<^item> No majority: it precommits nil; the lock is as before.
  \<^item> Majority for nil: it precommits nil; when a block is locked, the lock is released
    (\<open>locked_round = -1\<close>, locked block and parts cleared), and otherwise the lock fields are
    as before.
  \<^item> Majority for a block id the locked block hashes to: it relocks (\<open>locked_round = r\<close>) and
    precommits the id.
  \<^item> A block is locked, not that of the majority, and the proposal block hashes to the id:
    it locks the proposal block and its parts in round \<open>r\<close> and precommits the id.
  \<^item> A block is locked, a proposal block and its parts are present, and neither block is
    that of the majority: it releases the lock and precommits nil; when the parts do not have
    the part-set header of the majority, the proposal block is cleared and the parts become
    the empty part set of that header, and otherwise both are kept.
\<close>

theorem enter_precommit_cases:
  assumes "height (rs cs) = h" and "round (rs cs) \<le> r"
    and "\<not> (round (rs cs) = r \<and> Precommit \<le> step (rs cs))"
    and "votes (rs cs) = Some hvs"
  shows
    "(two_thirds_majority (prevotes hvs r) = None \<longrightarrow>
        enter_precommit E cs h r =
          bind (sign_add_vote E cs p2p_Precommit nil_hash nil_part_set_header)
            (\<lambda>cs2. Inr (new_step (update_round_step cs2 r Precommit)))) \<and>
     (two_thirds_majority (prevotes hvs r) = Some bid \<and> r \<le> pol_info hvs \<and> hash bid = [] \<longrightarrow>
        enter_precommit E cs h r =
          bind (sign_add_vote E
                  (if locked_block (rs cs) = None then cs
                   else cs\<lparr>rs := (rs cs)\<lparr>locked_round := - 1, locked_block := None,
                                         locked_block_parts := None\<rparr>\<rparr>)
                  p2p_Precommit nil_hash nil_part_set_header)
            (\<lambda>cs2. Inr (new_step (update_round_step cs2 r Precommit)))) \<and>
     (two_thirds_majority (prevotes hvs r) = Some bid \<and> r \<le> pol_info hvs \<and> hash bid \<noteq> [] \<and>
      locked_block (rs cs) = Some lb \<and> hashes_to lb (hash bid) \<longrightarrow>
        enter_precommit E cs h r =
          bind (sign_add_vote E (cs\<lparr>rs := (rs cs)\<lparr>locked_round := r\<rparr>\<rparr>)
                  p2p_Precommit (hash bid) (parts bid))
            (\<lambda>cs2. Inr (new_step (update_round_step cs2 r Precommit)))) \<and>
     (two_thirds_majority (prevotes hvs r) = Some bid \<and> r \<le> pol_info hvs \<and> hash bid \<noteq> [] \<and>
      locked_block (rs cs) = Some lb \<and> \<not> hashes_to lb (hash bid) \<and>
      proposal_block (rs cs) = Some pb \<and> hashes_to pb (hash bid) \<longrightarrow>
        enter_precommit E cs h r =
          bind (sign_add_vote E
                  (cs\<lparr>rs := (rs cs)\<lparr>locked_round := r, locked_block := Some pb,
                                    locked_block_parts := proposal_block_parts (rs cs)\<rparr>\<rparr>)
                  p2p_Precommit (hash bid) (parts bid))
            (\<lambda>cs2. Inr (new_step (update_round_step cs2 r Precommit)))) \<and>
     (two_thirds_majority (prevotes hvs r) = Some bid \<and> r \<le> pol_info hvs \<and> hash bid \<noteq> [] \<and>
      locked_block (rs cs) = Some lb \<and> \<not> hashes_to lb (hash bid) \<and>
      proposal_block (rs cs) = Some pb \<and> \<not> hashes_to pb (hash bid) \<and>
      proposal_block_parts (rs cs) = Some ps \<longrightarrow>
        enter_precommit E cs h r =
          bind (sign_add_vote E
                  (if has_header ps (parts bid)
                   then cs\<lparr>rs := (rs cs)\<lparr>locked_round := - 1, locked_block := None,
                                         locked_block_parts := None\<rparr>\<rparr>
                   else cs\<lparr>rs := (rs cs)\<lparr>locked_round := - 1, locked_block := None,
                                         locked_block_parts := None, proposal_block := None,
                                         proposal_block_parts :=
                                           Some (new_part_set_from_header (parts bid))\<rparr>\<rparr>)
                  p2p_Precommit nil_hash nil_part_set_header)
            (\<lambda>cs2. Inr (new_step (update_round_step cs2 r Precommit))))"
proof -
  have guard: "\<not> (height (rs cs) \<noteq> h \<or> r < round (rs cs) \<or>
                   (round (rs cs) = r \<and> Precommit \<le> step (rs cs)))"
    using assms(1-3) by auto
  have no_polka: "enter_precommit E cs h r =
      bind (sign_add_vote E cs p2p_Precommit nil_hash nil_part_set_header)
        (\<lambda>cs2. Inr (new_step (update_round_step cs2 r Precommit)))"
    if "two_thirds_majority (prevotes hvs r) = None"
    unfolding enter_precommit_def using guard assms(4) that by auto
  have polka_nil: "enter_precommit E cs h r =
      bind (sign_add_vote E
              (if locked_block (rs cs) = None then cs
               else cs\<lparr>rs := (rs cs)\<lparr>locked_round := - 1, locked_block := None,
                                     locked_block_parts := None\<rparr>\<rparr>)
              p2p_Precommit nil_hash nil_part_set_header)
        (\<lambda>cs2. Inr (new_step (update_round_step cs2 r Precommit)))"
    if "two_thirds_majority (prevotes hvs r) = Some bid" "r \<le> pol_info hvs" "hash bid = []"
    unfolding enter_precommit_def using guard assms(4) that by auto
  have relock: "enter_precommit E cs h r =
      bind (sign_add_vote E (cs\<lparr>rs := (rs cs)\<lparr>locked_round := r\<rparr>\<rparr>)
              p2p_Precommit (hash bid) (parts bid))
        (\<lambda>cs2. Inr (new_step (update_round_step cs2 r Precommit)))"
    if "two_thirds_majority (prevotes hvs r) = Some bid" "r \<le> pol_info hvs" "hash bid \<noteq> []"
      "locked_block (rs cs) = Some lb" "hashes_to lb (hash bid)"
    unfolding enter_precommit_def using guard assms(4) that by auto
  have lock: "enter_precommit E cs h r =
      bind (sign_add_vote E
              (cs\<lparr>rs := (rs cs)\<lparr>locked_round := r, locked_block := Some pb,
                                locked_block_parts := proposal_block_parts (rs cs)\<rparr>\<rparr>)
              p2p_Precommit (hash bid) (parts bid))
        (\<lambda>cs2. Inr (new_step (update_round_step cs2 r Precommit)))"
    if "two_thirds_majority (prevotes hvs r) = Some bid" "r \<le> pol_info hvs" "hash bid \<noteq> []"
      "locked_block (rs cs) = Some lb" "\<not> hashes_to lb (hash bid)"
      "proposal_block (rs cs) = Some pb" "hashes_to pb (hash bid)"
    unfolding enter_precommit_def using guard assms(4) that by auto
  have unknown: "enter_precommit E cs h r =
      bind (sign_add_vote E
              (if has_header ps (parts bid)
               then cs\<lparr>rs := (rs cs)\<lparr>locked_round := - 1, locked_block := None,
                                     locked_block_parts := None\<rparr>\<rparr>
               else cs\<lparr>rs := (rs cs)\<lparr>locked_round := - 1, locked_block := None,
                                     locked_block_parts := None, proposal_block := None,
                                     proposal_block_parts :=
                                       Some (new_part_set_from_header (parts bid))\<rparr>\<rparr>)
              p2p_Precommit nil_hash nil_part_set_header)
        (\<lambda>cs2. Inr (new_step (update_round_step cs2 r Precommit)))"
    if "two_thirds_majority (prevotes hvs r) = Some bid" "r \<le> pol_info hvs" "hash bid \<noteq> []"
      "locked_block (rs cs) = Some lb" "\<not> hashes_to lb (hash bid)"
      "proposal_block (rs cs) = Some pb" "\<not> hashes_to pb (hash bid)"
      "proposal_block_parts (rs cs) = Some ps"
    unfolding enter_precommit_def using guard assms(4) that by (auto simp: Let_def)
  show ?thesis
    using no_polka polka_nil relock lock unknown by blast
qed

theorem enter_precommit_cases_witness:
  "two_thirds_majority (prevotes empty_height_vote_set 1) = None \<and>
   lock_of (enter_precommit example_env no_polka_state 1 1) =
     Inr (0, Some block_C, Some parts_C) \<and>
   published (enter_precommit example_env no_polka_state 1 1) =
     Inr [example_precommit id_nil 100] \<and>
   progress (enter_precommit example_env no_polka_state 1 1) = Inr (1, 1, Precommit) \<and>
   two_thirds_majority (prevotes (round1_votes id_nil) 1) = Some id_nil \<and>
   lock_of (enter_precommit example_env (locked_state id_nil) 1 1) = Inr (- 1, None, None) \<and>
   published (enter_precommit example_env (locked_state id_nil) 1 1) =
     Inr [example_precommit id_nil 100] \<and>
   hashes_to block_C (hash id_C) \<and>
   lock_of (enter_precommit example_env (locked_state id_C) 1 1) =
     Inr (1, Some block_C, Some parts_C) \<and>
   published (enter_precommit example_env (locked_state id_C) 1 1) =
     Inr [example_precommit id_C 100] \<and>
   \<not> hashes_to block_C (hash id_B) \<and> hashes_to block_B (hash id_B) \<and>
   lock_of (enter_precommit example_env (locked_state id_B) 1 1) =
     Inr (1, Some block_B, Some parts_B) \<and>
   published (enter_precommit example_env (locked_state id_B) 1 1) =
     Inr [example_precommit id_B 100] \<and>
   \<not> hashes_to block_C (hash id_D) \<and> \<not> hashes_to block_B (hash id_D) \<and>
   \<not> has_header parts_B (parts id_D) \<and>
   lock_of (enter_precommit example_env (locked_state id_D) 1 1) = Inr (- 1, None, None) \<and>
   proposal_block_of (enter_precommit example_env (locked_state id_D) 1 1) =
     Inr (None, Some (new_part_set_from_header (parts id_D))) \<and>
   published (enter_precommit example_env (locked_state id_D) 1 1) =
     Inr [example_precommit id_nil 100] \<and>
   progress (enter_precommit example_env (locked_state id_D) 1 1) = Inr (1, 1, Precommit)"
  using
    enter_precommit_cases [where cs = no_polka_state and h = 1 and r = 1
      and hvs = empty_height_vote_set and E = example_env and bid = id_nil and lb = block_C
      and pb = block_B and ps = parts_B]
    enter_precommit_cases [where cs = "locked_state id_nil" and h = 1 and r = 1
      and hvs = "round1_votes id_nil" and E = example_env and bid = id_nil and lb = block_C
      and pb = block_B and ps = parts_B]
    enter_precommit_cases [where cs = "locked_state id_C" and h = 1 and r = 1
      and hvs = "round1_votes id_C" and E = example_env and bid = id_C and lb = block_C
      and pb = block_B and ps = parts_B]
    enter_precommit_cases [where cs = "locked_state id_B" and h = 1 and r = 1
      and hvs = "round1_votes id_B" and E = example_env and bid = id_B and lb = block_C
      and pb = block_B and ps = parts_B]
    enter_precommit_cases [where cs = "locked_state id_D" and h = 1 and r = 1
      and hvs = "round1_votes id_D" and E = example_env and bid = id_D and lb = block_C
      and pb = block_B and ps = parts_B]
  by (simp add: progress_def step_fun_defs fun_defs example_defs example_defs2 example_defs3
      step_defs)

lemmas vote_fun_defs = add_vote_def add_vote_prevote_def add_vote_precommit_def

text \<open>
  C9. The optional \<^verbatim>\<open>rs.locked_block\<close> is read without a test where \<^verbatim>\<open>enter_precommit\<close> has
  seen a majority for a block and where \<^verbatim>\<open>enter_commit\<close> has seen a majority: whenever no block
  is locked, both calls end in the access to the empty optional. No block is locked after
  \<^verbatim>\<open>update_to_state\<close>, so this is the state of every node that has not locked yet.
\<close>

theorem enter_precommit_and_commit_read_empty_lock:
  assumes "height (rs cs) = h" and "votes (rs cs) = Some hvs" and "locked_block (rs cs) = None"
  shows
    "(round (rs cs) \<le> r \<and> \<not> (round (rs cs) = r \<and> Precommit \<le> step (rs cs)) \<and>
      two_thirds_majority (prevotes hvs r) = Some bid \<and> hash bid \<noteq> [] \<and> r \<le> pol_info hvs \<longrightarrow>
        enter_precommit E cs h r = Inl EmptyOptionalAccess) \<and>
     (step (rs cs) < Commit \<and> two_thirds_majority (precommits hvs r) = Some bid2 \<longrightarrow>
        enter_commit E cs h r = Inl EmptyOptionalAccess)"
proof -
  have precommit_case: "enter_precommit E cs h r = Inl EmptyOptionalAccess"
    if "round (rs cs) \<le> r" "\<not> (round (rs cs) = r \<and> Precommit \<le> step (rs cs))"
      "two_thirds_majority (prevotes hvs r) = Some bid" "hash bid \<noteq> []" "r \<le> pol_info hvs"
    unfolding enter_precommit_def using assms that by auto
  have commit_case: "enter_commit E cs h r = Inl EmptyOptionalAccess"
    if "step (rs cs) < Commit" "two_thirds_majority (precommits hvs r) = Some bid2"
    unfolding enter_commit_def using assms that by auto
  show ?thesis
    using precommit_case commit_case by blast
qed

theorem enter_precommit_and_commit_read_empty_lock_witness:
  "run_to_polka = Inr polka_state \<and>
   progress run_to_polka = Inr (1, 1, Propose) \<and>
   locked_block (rs polka_state) = None \<and>
   map_option (\<lambda>hvs. two_thirds_majority (prevotes hvs 1)) (votes (rs polka_state)) =
     Some (Some id_B) \<and>
   hash id_B \<noteq> [] \<and>
   enter_precommit example_env polka_state 1 1 = Inl EmptyOptionalAccess \<and>
   map_sum id fst
     (add_vote example_env polka_state (example_vote p2p_Precommit 1 1 id_B) ''peer'') =
     Inl EmptyOptionalAccess \<and>
   locked_block (rs precommit_majority_state) = None \<and>
   two_thirds_majority (precommits precommit_majority_votes 0) = Some id_B \<and>
   enter_commit example_env precommit_majority_state 1 0 = Inl EmptyOptionalAccess \<and>
   map_sum id fst
     (add_vote example_env height1_state (example_vote p2p_Precommit 1 0 id_B) ''peer'') =
     Inl EmptyOptionalAccess"
  using
    enter_precommit_and_commit_read_empty_lock [where cs = polka_state and h = 1 and r = 1
      and hvs = "the (votes (rs polka_state))" and E = example_env and bid = id_B
      and ?bid2.0 = id_B]
    enter_precommit_and_commit_read_empty_lock [where cs = precommit_majority_state and h = 1
      and r = 0 and hvs = precommit_majority_votes and E = example_env and bid = id_B
      and ?bid2.0 = id_B]
  by (simp add: progress_def vote_fun_defs step_fun_defs fun_defs example_defs example_defs2
      example_defs3 step_defs)

subsection \<open>Commit\<close>

text \<open>
  C6, as stated, fails: with a 2/3 majority of the precommits for nil, \<^verbatim>\<open>enter_commit\<close> does
  not throw; it returns in step \<open>Commit\<close>.
\<close>

theorem enter_commit_accepts_nil_majority:
  "height (rs (locked_state id_nil)) = 1 \<and> step (rs (locked_state id_nil)) < Commit \<and>
   votes (rs (locked_state id_nil)) = Some (round1_votes id_nil) \<and>
   two_thirds_majority (precommits (round1_votes id_nil) 1) = Some id_nil \<and>
   hash id_nil = [] \<and>
   progress (enter_commit example_env (locked_state id_nil) 1 1) = Inr (1, 1, Commit)"
  by (simp add: progress_def step_fun_defs fun_defs example_defs example_defs2 example_defs3
      step_defs)

text \<open>
  C6, amended. Let \<open>h\<close> be the current height and the step be before \<open>Commit\<close>. When the
  precommits of round \<open>r\<close> have no 2/3 majority, \<^verbatim>\<open>enter_commit(h, r)\<close> throws. When they have
  one, for a block or for nil, and the locked block, the proposal block and its parts are
  present, it sets \<open>commit_round = r\<close>, \<open>commit_time\<close> to the current time, the round to \<open>r\<close> and
  the step to \<open>Commit\<close>, and then runs \<^verbatim>\<open>try_finalize_commit(h)\<close> on that state; when the
  majority is for nil, or neither block is the committed one while the parts have the header
  of the majority, the call returns with these fields as set.
\<close>

theorem enter_commit_cases:
  assumes "height (rs cs) = h" and "step (rs cs) < Commit" and "votes (rs cs) = Some hvs"
  shows
    "(two_thirds_majority (precommits hvs r) = None \<longrightarrow>
        enter_commit E cs h r = Inl (RuntimeError ''RunActionCommit() expects +2/3 precommits'')) \<and>
     (two_thirds_majority (precommits hvs r) = Some bid \<and> locked_block (rs cs) = Some lb \<and>
      proposal_block (rs cs) = Some pb \<and> proposal_block_parts (rs cs) = Some ps \<longrightarrow>
        (\<exists>cs1. enter_commit E cs h r = try_finalize_commit E cs1 h \<and>
               commit_round (rs cs1) = r \<and> commit_time (rs cs1) = clock cs \<and>
               round (rs cs1) = r \<and> step (rs cs1) = Commit \<and> height (rs cs1) = h \<and>
               (hash bid = [] \<or>
                (\<not> hashes_to lb (hash bid) \<and> \<not> hashes_to pb (hash bid) \<and>
                 has_header ps (parts bid)) \<longrightarrow>
                  enter_commit E cs h r = Inr cs1)))"
proof -
  have guard: "\<not> (height (rs cs) \<noteq> h \<or> Commit \<le> step (rs cs))"
    using assms(1,2) by auto
  have no_majority:
    "enter_commit E cs h r = Inl (RuntimeError ''RunActionCommit() expects +2/3 precommits'')"
    if "two_thirds_majority (precommits hvs r) = None"
    unfolding enter_commit_def using guard assms(3) that by auto
  have majority:
    "\<exists>cs1. enter_commit E cs h r = try_finalize_commit E cs1 h \<and>
           commit_round (rs cs1) = r \<and> commit_time (rs cs1) = clock cs \<and>
           round (rs cs1) = r \<and> step (rs cs1) = Commit \<and> height (rs cs1) = h \<and>
           (hash bid = [] \<or>
            (\<not> hashes_to lb (hash bid) \<and> \<not> hashes_to pb (hash bid) \<and>
             has_header ps (parts bid)) \<longrightarrow>
              enter_commit E cs h r = Inr cs1)"
    if maj: "two_thirds_majority (precommits hvs r) = Some bid"
      and lb: "locked_block (rs cs) = Some lb"
      and pb: "proposal_block (rs cs) = Some pb"
      and ps: "proposal_block_parts (rs cs) = Some ps"
  proof -
    define fin where "fin = (\<lambda>cs2.
      new_step ((update_round_step cs2 r Commit)\<lparr>rs := (rs (update_round_step cs2 r Commit))
        \<lparr>commit_round := r, commit_time := clock (update_round_step cs2 r Commit)\<rparr>\<rparr>))"
    have fields: "commit_round (rs (fin cs2)) = r \<and> commit_time (rs (fin cs2)) = clock cs2 \<and>
        round (rs (fin cs2)) = r \<and> step (rs (fin cs2)) = Commit \<and>
        height (rs (fin cs2)) = height (rs cs2) \<and> votes (rs (fin cs2)) = votes (rs cs2) \<and>
        proposal_block (rs (fin cs2)) = proposal_block (rs cs2)" for cs2
      by (simp add: fin_def update_round_step_def new_step_def)
    have stays: "try_finalize_commit E (fin cs2) h = Inr (fin cs2)"
      if "height (rs cs2) = h" "votes (rs cs2) = Some hvs"
        "hash bid = [] \<or> (\<exists>b. proposal_block (rs cs2) = Some b \<and> \<not> hashes_to b (hash bid))"
      for cs2
      unfolding try_finalize_commit_def using that maj fields [of cs2] by auto
    consider (locked) "hashes_to lb (hash bid)"
      | (proposed) "\<not> hashes_to lb (hash bid)" "hashes_to pb (hash bid)"
      | (collecting) "\<not> hashes_to lb (hash bid)" "\<not> hashes_to pb (hash bid)"
          "has_header ps (parts bid)"
      | (unknown) "\<not> hashes_to lb (hash bid)" "\<not> hashes_to pb (hash bid)"
          "\<not> has_header ps (parts bid)"
      by blast
    then show ?thesis
    proof cases
      case locked
      let ?cs2 = "cs\<lparr>rs := (rs cs)\<lparr>proposal_block := locked_block (rs cs),
                     proposal_block_parts := locked_block_parts (rs cs)\<rparr>\<rparr>"
      have run: "enter_commit E cs h r = try_finalize_commit E (fin ?cs2) h"
        unfolding enter_commit_def fin_def using guard assms(3) maj lb locked
        by (auto simp: Let_def)
      have "hash bid = [] \<Longrightarrow> try_finalize_commit E (fin ?cs2) h = Inr (fin ?cs2)"
        using stays [of ?cs2] assms(1,3) by simp
      then show ?thesis
        using run fields [of ?cs2] assms(1) locked by (intro exI [of _ "fin ?cs2"]) auto
    next
      case proposed
      have run: "enter_commit E cs h r = try_finalize_commit E (fin cs) h"
        unfolding enter_commit_def fin_def using guard assms(3) maj lb pb proposed
        by (auto simp: Let_def)
      have "hash bid = [] \<Longrightarrow> try_finalize_commit E (fin cs) h = Inr (fin cs)"
        using stays [of cs] assms(1,3) by simp
      then show ?thesis
        using run fields [of cs] assms(1) proposed by (intro exI [of _ "fin cs"]) auto
    next
      case collecting
      have run: "enter_commit E cs h r = try_finalize_commit E (fin cs) h"
        unfolding enter_commit_def fin_def using guard assms(3) maj lb pb ps collecting
        by (auto simp: Let_def)
      have "try_finalize_commit E (fin cs) h = Inr (fin cs)"
        using stays [of cs] assms(1,3) pb collecting by simp
      then show ?thesis
        using run fields [of cs] assms(1) by (intro exI [of _ "fin cs"]) auto
    next
      case unknown
      let ?cs2 = "cs\<lparr>rs := (rs cs)\<lparr>proposal_block := None,
                     proposal_block_parts := Some (new_part_set_from_header (parts bid))\<rparr>\<rparr>"
      have run: "enter_commit E cs h r = try_finalize_commit E (fin ?cs2) h"
        unfolding enter_commit_def fin_def using guard assms(3) maj lb pb ps unknown
        by (auto simp: Let_def)
      have "hash bid = [] \<Longrightarrow> try_finalize_commit E (fin ?cs2) h = Inr (fin ?cs2)"
        using stays [of ?cs2] assms(1,3) by simp
      then show ?thesis
        using run fields [of ?cs2] assms(1) unknown by (intro exI [of _ "fin ?cs2"]) auto
    qed
  qed
  show ?thesis
    using no_majority majority by blast
qed

theorem enter_commit_cases_witness:
  "two_thirds_majority (precommits empty_height_vote_set 1) = None \<and>
   enter_commit example_env no_polka_state 1 1 =
     Inl (RuntimeError ''RunActionCommit() expects +2/3 precommits'') \<and>
   two_thirds_majority (precommits (round1_votes id_nil) 1) = Some id_nil \<and>
   progress (enter_commit example_env (locked_state id_nil) 1 1) = Inr (1, 1, Commit) \<and>
   commit_of (enter_commit example_env (locked_state id_nil) 1 1) = Inr (1, 100) \<and>
   clock (locked_state id_nil) = 100 \<and>
   two_thirds_majority (precommits (round1_votes id_D) 1) = Some id_D \<and>
   \<not> hashes_to block_C (hash id_D) \<and> \<not> hashes_to block_B (hash id_D) \<and>
   has_header parts_D_received (parts id_D) \<and>
   progress (enter_commit example_env collecting_D_state 1 1) = Inr (1, 1, Commit) \<and>
   commit_of (enter_commit example_env collecting_D_state 1 1) = Inr (1, 100) \<and>
   hashes_to block_B (hash id_B) \<and>
   enter_commit example_env (locked_state id_B) 1 1 =
     Inl (RuntimeError ''update_to_state() unexpected state height of {} but found {}'')"
  using
    enter_commit_cases [where cs = no_polka_state and h = 1 and r = 1
      and hvs = empty_height_vote_set and E = example_env and bid = id_nil and lb = block_C
      and pb = block_B and ps = parts_B]
    enter_commit_cases [where cs = "locked_state id_nil" and h = 1 and r = 1
      and hvs = "round1_votes id_nil" and E = example_env and bid = id_nil and lb = block_C
      and pb = block_B and ps = parts_B]
    enter_commit_cases [where cs = collecting_D_state and h = 1 and r = 1
      and hvs = "round1_votes id_D" and E = example_env and bid = id_D and lb = block_C
      and pb = block_B and ps = parts_D_received]
    enter_commit_cases [where cs = "locked_state id_B" and h = 1 and r = 1
      and hvs = "round1_votes id_B" and E = example_env and bid = id_B and lb = block_C
      and pb = block_B and ps = parts_B]
  by (simp add: progress_def commit_of_def step_fun_defs fun_defs example_defs example_defs2
      example_defs3 step_defs)

subsection \<open>The state store\<close>

lemmas store_defs = save_validators_info_def load_validators_def load_validators_info_def
  last_stored_height_for_def encode_key_def format_08x_def pad_zero_def hex_digit_def
  prefix_validators_def val_set_checkpoint_interval_def cpp_rem_def to_int32_def write_sync_def
  example_db_def store_env_def shift_priority_def

declare to_hex.simps [simp del]

lemma hex_digit_value_hex_digit: "d < 16 \<Longrightarrow> hex_digit_value (hex_digit d) = d"
  by (auto simp: hex_digit_def hex_digit_value_def less_Suc_eq numeral_eq_Suc)

lemma is_hex_digit_hex_digit: "d < 16 \<Longrightarrow> is_hex_digit (hex_digit d)"
  by (auto simp: hex_digit_def is_hex_digit_def less_Suc_eq numeral_eq_Suc)

lemma hex_value_snoc: "hex_value (s @ [c]) = 16 * hex_value s + hex_digit_value c"
  by (simp add: hex_value_def)

lemma hex_value_zero_Cons: "hex_value (CHR ''0'' # s) = hex_value s"
  by (simp add: hex_value_def hex_digit_value_def)

lemma hex_value_replicate_zero: "hex_value (replicate k (CHR ''0'') @ s) = hex_value s"
  by (induction k) (simp_all add: hex_value_zero_Cons)

lemma to_hex_small: "n < 16 \<Longrightarrow> to_hex n = [hex_digit n]"
  by (simp add: to_hex.simps)

lemma to_hex_large: "\<not> n < 16 \<Longrightarrow> to_hex n = to_hex (n div 16) @ [hex_digit (n mod 16)]"
  by (subst to_hex.simps) simp

lemma hex_value_to_hex: "hex_value (to_hex n) = n"
proof (induction n rule: to_hex.induct)
  case (1 n)
  show ?case
  proof (cases "n < 16")
    case True
    then show ?thesis
      by (simp add: to_hex_small hex_value_def hex_digit_value_hex_digit)
  next
    case False
    then show ?thesis
      using "1.IH" by (simp add: to_hex_large hex_value_snoc hex_digit_value_hex_digit)
  qed
qed

lemma to_hex_digits: "\<forall>c \<in> set (to_hex n). is_hex_digit c"
proof (induction n rule: to_hex.induct)
  case (1 n)
  show ?case
  proof (cases "n < 16")
    case True
    then show ?thesis
      by (simp add: to_hex_small is_hex_digit_hex_digit)
  next
    case False
    then show ?thesis
      using "1.IH" by (simp add: to_hex_large is_hex_digit_hex_digit)
  qed
qed

lemma length_to_hex: "0 < k \<Longrightarrow> n < 16 ^ k \<Longrightarrow> length (to_hex n) \<le> k"
proof (induction n arbitrary: k rule: to_hex.induct)
  case (1 n)
  show ?case
  proof (cases "n < 16")
    case True
    then show ?thesis using "1.prems" by (simp add: to_hex_small)
  next
    case False
    obtain j where k: "k = Suc j"
      using "1.prems"(1) by (cases k) auto
    have "0 < j"
      using False "1.prems"(2) k by (cases j) auto
    moreover have "n div 16 < 16 ^ j"
      using "1.prems"(2) k by (simp add: less_mult_imp_div_less mult.commute)
    ultimately have "length (to_hex (n div 16)) \<le> j"
      using "1.IH" False by blast
    then show ?thesis
      using False k by (simp add: to_hex_large)
  qed
qed

lemma to_hex_nonempty: "to_hex n \<noteq> []"
  by (cases "n < 16") (simp_all add: to_hex_small to_hex_large)


lemma format_08x_nonneg:
  assumes "0 \<le> h"
  shows "8 \<le> length (format_08x h)" and "\<forall>c \<in> set (format_08x h). is_hex_digit c"
    and "hex_value (format_08x h) = nat h"
proof -
  have f: "format_08x h = replicate (8 - length (to_hex (nat h))) (CHR ''0'') @ to_hex (nat h)"
    using assms by (simp add: format_08x_def pad_zero_def)
  show "8 \<le> length (format_08x h)"
    by (simp add: f)
  have "is_hex_digit (CHR ''0'')"
    by (simp add: is_hex_digit_def)
  then show "\<forall>c \<in> set (format_08x h). is_hex_digit c"
    using to_hex_digits [of "nat h"] by (auto simp: f)
  show "hex_value (format_08x h) = nat h"
    by (simp add: f hex_value_replicate_zero hex_value_to_hex)
qed

lemma format_08x_eight:
  assumes "0 \<le> h" and "h < 2 ^ 32"
  shows "length (format_08x h) = 8"
proof -
  have "nat h < 16 ^ 8"
    using assms by simp
  then have "length (to_hex (nat h)) \<le> 8"
    by (intro length_to_hex) simp_all
  then show ?thesis
    using assms(1) by (simp add: format_08x_def pad_zero_def)
qed

text \<open>Keys of heights that are not negative are different for different heights.\<close>

lemma encode_key_inject:
  assumes "0 \<le> h" and "0 \<le> h'" and "encode_key p h = encode_key p h'"
  shows "h = h'"
proof -
  have "hex_value (format_08x h) = hex_value (format_08x h')"
    using assms(3) by (simp add: encode_key_def)
  then show ?thesis
    using assms(1,2) by (simp add: format_08x_nonneg)
qed

lemma cpp_rem_nonneg: "0 \<le> a \<Longrightarrow> 0 < b \<Longrightarrow> cpp_rem a b = a mod b"
  by (cases "a = 0") (simp_all add: cpp_rem_def)

lemma cpp_rem_zero_iff:
  assumes "0 < b"
  shows "cpp_rem a b = 0 \<longleftrightarrow> b dvd a"
proof -
  have "cpp_rem a b = 0 \<longleftrightarrow> a = 0 \<or> \<bar>a\<bar> mod b = 0"
    using assms by (simp add: cpp_rem_def sgn_eq_0_iff)
  also have "\<dots> \<longleftrightarrow> b dvd \<bar>a\<bar>"
    by (auto simp: dvd_eq_mod_eq_0)
  finally show ?thesis
    by simp
qed

text \<open>
  C8, as stated, fails: the hexadecimal encoding of a height from \<open>2^32\<close> on has more than 8
  digits, so the key is longer than one prefix byte and 8 digits.
\<close>

theorem save_validators_info_long_key:
  "(0 :: int) \<le> 4294967296 \<and>
   save_validators_info 4294967296 0 example_validators [] =
     (True, [(prefix_validators # ''100000000'',
              \<lparr>last_height_changed = 0, v_set = None\<rparr>)]) \<and>
   length (encode_key prefix_validators 4294967296) = 10"
  by (simp add: store_defs to_hex.simps)

lemma write_sync_single: "write_sync d [(k, v)] k = Some v"
  by (simp add: write_sync_def)

lemma load_validators_full:
  assumes "load_validators_info d h = Some \<lparr>last_height_changed = c, v_set = Some vs\<rparr>"
  shows "load_validators E d h = Some vs"
  using assms by (simp add: load_validators_def)

lemma load_validators_pointer:
  assumes "load_validators_info d h = Some \<lparr>last_height_changed = c, v_set = None\<rparr>"
    and "load_validators_info d (last_stored_height_for h c) =
           Some \<lparr>last_height_changed = c', v_set = Some vs'\<rparr>"
  shows "load_validators E d h = Some (increment_proposer_priority E (to_int32 (h - c')) vs')"
  using assms by (simp add: load_validators_def Let_def)

lemma last_stored_height_for_nonneg:
  "0 \<le> h \<Longrightarrow> last_stored_height_for h c = max (h - h mod 100000) c"
  by (simp add: last_stored_height_for_def val_set_checkpoint_interval_def cpp_rem_nonneg)

text \<open>
  C8, amended. For every height \<open>h\<close> and \<open>last_height_changed\<close> \<open>c\<close>:
  \<^item> with \<open>c \<le> h\<close>, \<^verbatim>\<open>save_validators_info\<close> writes one record, under the key that is the
    prefix byte followed by \<^verbatim>\<open>{:08x}\<close> of \<open>h\<close>; the record holds \<open>c\<close>, and the full validator set
    if and only if \<open>h = c\<close> or \<open>h\<close> is a multiple of 100000; with \<open>c > h\<close> it writes nothing and
    returns false;
  \<^item> for \<open>h \<ge> 0\<close> the key has at least 8 hexadecimal digits after the prefix, which denote
    \<open>h\<close>; it has exactly 8 when \<open>h < 2^32\<close>;
  \<^item> the record written is the one \<^verbatim>\<open>load_validators_info(h)\<close> then reads;
  \<^item> \<^verbatim>\<open>load_validators(h)\<close> returns the set of the record at \<open>h\<close> as it is when the record
    holds one; otherwise, for \<open>h \<ge> 0\<close>, it loads the record at \<open>max(h - h mod 100000, c)\<close> and
    increments the proposer priority of its set by \<open>h\<close> minus the \<open>last_height_changed\<close> of
    that record, converted to 32 bits (the difference itself when it fits).
\<close>

theorem save_and_load_validators_info:
  "(c \<le> h \<longrightarrow>
      save_validators_info h c vs b =
        (True, b @ [(prefix_validators # format_08x h,
                     \<lparr>last_height_changed = c,
                      v_set = (if h = c \<or> 100000 dvd h then Some vs else None)\<rparr>)])) \<and>
   (h < c \<longrightarrow> save_validators_info h c vs b = (False, b)) \<and>
   (0 \<le> h \<longrightarrow>
      8 \<le> length (format_08x h) \<and> (\<forall>x \<in> set (format_08x h). is_hex_digit x) \<and>
      hex_value (format_08x h) = nat h) \<and>
   (0 \<le> h \<and> h < 2 ^ 32 \<longrightarrow> length (format_08x h) = 8) \<and>
   (c \<le> h \<longrightarrow>
      load_validators_info (write_sync d (snd (save_validators_info h c vs []))) h =
        Some \<lparr>last_height_changed = c,
              v_set = (if h = c \<or> 100000 dvd h then Some vs else None)\<rparr>) \<and>
   (load_validators_info d h = Some \<lparr>last_height_changed = c, v_set = Some vs\<rparr> \<longrightarrow>
      load_validators E d h = Some vs) \<and>
   (0 \<le> h \<and> load_validators_info d h = Some \<lparr>last_height_changed = c, v_set = None\<rparr> \<and>
    load_validators_info d (max (h - h mod 100000) c) =
      Some \<lparr>last_height_changed = c', v_set = Some vs'\<rparr> \<longrightarrow>
      load_validators E d h =
        Some (increment_proposer_priority E (to_int32 (h - c')) vs') \<and>
      (- (2 ^ 31) \<le> h - c' \<and> h - c' < 2 ^ 31 \<longrightarrow>
         load_validators E d h = Some (increment_proposer_priority E (h - c') vs')))"
proof -
  have saved: "save_validators_info h c vs b0 =
      (True, b0 @ [(prefix_validators # format_08x h,
                    \<lparr>last_height_changed = c,
                     v_set = (if h = c \<or> 100000 dvd h then Some vs else None)\<rparr>)])"
    if "c \<le> h" for b0
    using that
    by (simp add: save_validators_info_def encode_key_def val_set_checkpoint_interval_def
        cpp_rem_zero_iff)
  have refused: "save_validators_info h c vs b = (False, b)" if "h < c"
    using that by (simp add: save_validators_info_def)
  have read_back:
    "load_validators_info (write_sync d (snd (save_validators_info h c vs []))) h =
       Some \<lparr>last_height_changed = c,
             v_set = (if h = c \<or> 100000 dvd h then Some vs else None)\<rparr>"
    if "c \<le> h"
    using saved [OF that, of "[]"]
    by (simp add: load_validators_info_def encode_key_def write_sync_single)
  have pointer: "load_validators E d h =
      Some (increment_proposer_priority E (to_int32 (h - c')) vs')"
    if "0 \<le> h" "load_validators_info d h = Some \<lparr>last_height_changed = c, v_set = None\<rparr>"
      "load_validators_info d (max (h - h mod 100000) c) =
         Some \<lparr>last_height_changed = c', v_set = Some vs'\<rparr>"
    using that load_validators_pointer [of d h c c' vs' E]
    by (simp add: last_stored_height_for_nonneg)
  show ?thesis
    using saved [of b] refused read_back pointer format_08x_nonneg [of h] format_08x_eight [of h]
      load_validators_full [of d h c vs E] to_int32_id [of "h - c'"]
    by auto
qed

lemma replicate_numeral_unfold: "replicate (numeral k) x = x # replicate (pred_numeral k) x"
  by (simp add: numeral_eq_Suc)

theorem save_and_load_validators_info_witness:
  "save_validators_info 7 5 example_validators [] =
     (True, [(prefix_validators # ''00000007'',
              \<lparr>last_height_changed = 5, v_set = None\<rparr>)]) \<and>
   save_validators_info 5 5 example_validators [] =
     (True, [(prefix_validators # ''00000005'',
              \<lparr>last_height_changed = 5, v_set = Some example_validators\<rparr>)]) \<and>
   save_validators_info 200000 5 example_validators [] =
     (True, [(prefix_validators # ''00030d40'',
              \<lparr>last_height_changed = 5, v_set = Some example_validators\<rparr>)]) \<and>
   save_validators_info 4 5 example_validators [] = (False, []) \<and>
   hex_value ''00030d40'' = 200000 \<and>
   load_validators_info example_db 5 =
     Some \<lparr>last_height_changed = 5, v_set = Some example_validators\<rparr> \<and>
   load_validators store_env example_db 5 = Some example_validators \<and>
   load_validators_info example_db 7 = Some \<lparr>last_height_changed = 5, v_set = None\<rparr> \<and>
   max (7 - 7 mod 100000) 5 = (5 :: int) \<and>
   load_validators store_env example_db 7 = Some (shift_priority 2 example_validators)"
  using save_and_load_validators_info [where h = 7 and c = 5 and vs = example_validators
      and b = "[]" and d = example_db and E = store_env and c' = 5 and vs' = example_validators]
    save_and_load_validators_info [where h = 5 and c = 5 and vs = example_validators
      and b = "[]" and d = example_db and E = store_env and c' = 5 and vs' = example_validators]
    save_and_load_validators_info [where h = 200000 and c = 5 and vs = example_validators
      and b = "[]" and d = example_db and E = store_env and c' = 5 and vs' = example_validators]
    save_and_load_validators_info [where h = 4 and c = 5 and vs = example_validators
      and b = "[]" and d = example_db and E = store_env and c' = 5 and vs' = example_validators]
  by (simp add: store_defs to_hex.simps hex_value_def hex_digit_value_def is_hex_digit_def
      example_defs replicate_numeral_unfold)

subsection \<open>Saving a range of heights and loading one of them\<close>

declare save_heights.simps [simp del]

lemma save_validators_info_saved:
  "lo \<le> k \<Longrightarrow> save_validators_info k lo vs b =
     (True, b @ [(encode_key prefix_validators k, saved_info lo vs k)])"
  by (simp add: save_validators_info_def saved_info_def val_set_checkpoint_interval_def
      cpp_rem_zero_iff)

lemma save_heights_batch:
  "lo \<le> k \<Longrightarrow> save_heights k lo hi vs b =
     (True, b @ map (\<lambda>i. (encode_key prefix_validators i, saved_info lo vs i)) [k..hi])"
proof (induction k lo hi vs b rule: save_heights.induct)
  case (1 k lo hi vs b)
  show ?case
  proof (cases "k \<le> hi")
    case True
    have "save_heights k lo hi vs b =
        save_heights (k + 1) lo hi vs (b @ [(encode_key prefix_validators k, saved_info lo vs k)])"
      using True "1.prems" by (subst save_heights.simps) (simp add: save_validators_info_saved)
    also have "\<dots> = (True, (b @ [(encode_key prefix_validators k, saved_info lo vs k)]) @
        map (\<lambda>i. (encode_key prefix_validators i, saved_info lo vs i)) [k + 1..hi])"
      using True "1.prems"
      by (intro "1.IH" [OF True save_validators_info_saved [symmetric]]) auto
    finally show ?thesis
      using True by (simp add: upto_rec1 [of k hi])
  next
    case False
    then show ?thesis
      by (subst save_heights.simps) simp
  qed
qed

lemma write_sync_Cons: "write_sync d (kv # b) = write_sync (d(fst kv \<mapsto> snd kv)) b"
  by (simp add: write_sync_def)

lemma write_sync_lookup:
  assumes "0 \<le> h" and "\<forall>k \<in> set ks. 0 \<le> k"
    and "h \<in> set ks \<or> d (encode_key p h) = Some (f h)"
  shows "write_sync d (map (\<lambda>i. (encode_key p i, f i)) ks) (encode_key p h) = Some (f h)"
  using assms(2,3)
proof (induction ks arbitrary: d)
  case Nil
  then show ?case by (simp add: write_sync_def)
next
  case (Cons a ks)
  have "h \<in> set ks \<or> (d(encode_key p a \<mapsto> f a)) (encode_key p h) = Some (f h)"
  proof (cases "a = h")
    case True
    then show ?thesis by simp
  next
    case False
    then have "encode_key p a \<noteq> encode_key p h"
      using encode_key_inject [of a h p] assms(1) Cons.prems(1) by auto
    then show ?thesis
      using Cons.prems(2) False by auto
  qed
  moreover have "\<forall>k \<in> set ks. 0 \<le> k"
    using Cons.prems(1) by simp
  ultimately have "write_sync (d(encode_key p a \<mapsto> f a))
      (map (\<lambda>i. (encode_key p i, f i)) ks) (encode_key p h) = Some (f h)"
    by (intro Cons.IH)
  then show ?case
    by (simp only: list.map write_sync_Cons fst_conv snd_conv)
qed

text \<open>
  After \<^verbatim>\<open>save_validator_sets(lo, hi, vs)\<close>, \<^verbatim>\<open>load_validators(h)\<close> for a height of the range
  returns \<open>vs\<close> itself at \<open>lo\<close> and at the multiples of 100000, and \<open>vs\<close> with its proposer
  priority incremented by \<open>h - lo\<close> at every other height.
\<close>

lemma save_validator_sets_load:
  assumes "0 \<le> lo" and "lo \<le> h" and "h \<le> hi" and "h - lo < 2 ^ 31"
  shows "fst (save_validator_sets d lo hi vs) \<and>
         load_validators E (snd (save_validator_sets d lo hi vs)) h =
           Some (if h = lo \<or> 100000 dvd h then vs else increment_proposer_priority E (h - lo) vs)"
proof -
  let ?d = "write_sync d (map (\<lambda>i. (encode_key prefix_validators i, saved_info lo vs i)) [lo..hi])"
  have res: "save_validator_sets d lo hi vs = (True, ?d)"
    by (simp add: save_validator_sets_def save_heights_batch)
  have look: "load_validators_info ?d k = Some (saved_info lo vs k)" if "lo \<le> k" "k \<le> hi" for k
    unfolding load_validators_info_def
    using that assms(1) by (intro write_sync_lookup) auto
  show ?thesis
  proof (cases "h = lo \<or> 100000 dvd h")
    case True
    then have "load_validators E ?d h = Some vs"
      using look [of h] assms(2,3) by (intro load_validators_full [of _ _ lo]) (simp add: saved_info_def)
    then show ?thesis
      using True res by simp
  next
    case False
    let ?s = "max (h - h mod 100000) lo"
    have s_range: "lo \<le> ?s" "?s \<le> hi"
      using assms(1-3) by (auto simp: max_def intro: order_trans [of _ h])
    have "?s = lo \<or> 100000 dvd ?s"
      by (auto simp: max_def dvd_eq_mod_eq_0 mod_diff_left_eq [symmetric])
    then have full: "saved_info lo vs ?s = \<lparr>last_height_changed = lo, v_set = Some vs\<rparr>"
      by (auto simp: saved_info_def)
    have ptr: "saved_info lo vs h = \<lparr>last_height_changed = lo, v_set = None\<rparr>"
      using False by (simp add: saved_info_def)
    have "load_validators E ?d h = Some (increment_proposer_priority E (to_int32 (h - lo)) vs)"
      using look [of h] look [of ?s] s_range assms ptr full
      by (intro load_validators_pointer [of _ _ lo])
         (simp_all add: last_stored_height_for_nonneg)
    then show ?thesis
      using False res assms by (simp add: to_int32_id)
  qed
qed

end
